theory Spec2Isabelle
  imports Main
begin

section \<open>The attendance server (server/app.py): data model\<close>

text \<open>
  The server keeps its durable state in tables of an external store and its simulated
  clock in one process-wide dictionary. A timezone-aware \<^verbatim>\<open>datetime\<close> is modelled by the
  instant it denotes, in microseconds since the epoch; a \<^verbatim>\<open>timedelta\<close> is a difference of
  two instants. The server's zone, Africa/Johannesburg, is UTC+2 all year, so wall-clock
  fields are read off the instant shifted by two hours. A \<^verbatim>\<open>date\<close> is a day number (days
  since the epoch) and a \<^verbatim>\<open>time\<close> of day is a number of microseconds since midnight.
\<close>

type_synonym datetime = int
type_synonym timedelta = int
type_synonym pydate = int
type_synonym pytime = int

definition us_per_second :: int where
  "us_per_second = 1000000"

definition us_per_day :: int where
  "us_per_day = 86400000000"

definition sast_offset :: timedelta where
  "sast_offset = 7200000000"

text \<open>\<^verbatim>\<open>timedelta(minutes=30)\<close>.\<close>

definition thirty_minutes :: timedelta where
  "thirty_minutes = 1800000000"

text \<open>
  \<^verbatim>\<open>td.seconds\<close>: Python normalises a timedelta to days, seconds and microseconds with
  \<^verbatim>\<open>0 <= seconds < 86400\<close>; the attribute is that middle component, not the total.
\<close>

definition timedelta_seconds :: "timedelta \<Rightarrow> int" where
  "timedelta_seconds d = (d mod us_per_day) div us_per_second"

text \<open>\<^verbatim>\<open>dt.date()\<close>, \<^verbatim>\<open>dt.time()\<close> and \<^verbatim>\<open>dt.weekday()\<close> (Monday is 0) of a datetime in the
  server's zone. Day 0 of the epoch was a Thursday.\<close>

definition date_of :: "datetime \<Rightarrow> pydate" where
  "date_of dt = (dt + sast_offset) div us_per_day"

definition time_of :: "datetime \<Rightarrow> pytime" where
  "time_of dt = (dt + sast_offset) mod us_per_day"

definition weekday :: "datetime \<Rightarrow> int" where
  "weekday dt = (date_of dt + 3) mod 7"

text \<open>\<^verbatim>\<open>dt.replace(hour=0, minute=0, second=0, microsecond=0)\<close>.\<close>

definition start_of_day :: "datetime \<Rightarrow> datetime" where
  "start_of_day dt = dt - time_of dt"

subsection \<open>The simulated clock\<close>

text \<open>
  The simulated start is the one datetime of the program that does not come from
  \<^verbatim>\<open>datetime.now(sast)\<close>: it is \<^verbatim>\<open>datetime.fromisoformat\<close> of a text, aware when the text
  carries an offset and naive (a wall-clock reading, here in microseconds) when it does
  not. Two aware datetimes are equal when they denote the same instant, two naive ones
  when their readings are the same, and a naive one is never equal to an aware one:
  \<^verbatim>\<open>!=\<close> between them is true. That is the equality of this datatype.
\<close>

datatype pydatetime = Aware datetime | Naive int

text \<open>
  \<^verbatim>\<open>dt.astimezone(sast)\<close>, as the instant it denotes. Python takes a naive datetime to be
  in the zone the server's operating system is set to; \<open>local_offset\<close> is that zone's
  offset.
\<close>

definition astimezone :: "timedelta \<Rightarrow> pydatetime \<Rightarrow> datetime" where
  "astimezone local_offset dt = (case dt of Aware i \<Rightarrow> i | Naive w \<Rightarrow> w - local_offset)"

text \<open>The dictionary \<^verbatim>\<open>system_time_settings\<close> and the row of table \<^verbatim>\<open>system_settings\<close>, its
  datetime as \<^verbatim>\<open>fromisoformat\<close> reads the text the store hands back.\<close>

record system_time_settings =
  override_enabled :: bool
  simulated_start_time :: "pydatetime option"
  real_time_at_set :: "datetime option"
  last_checked :: "datetime option"

record settings_row =
  row_override_enabled :: bool
  row_simulated_datetime :: "pydatetime option"

text \<open>What the query for the settings row gave: an exception, no data, or the row.\<close>

datatype fetch_result = FetchError | NoData | Row settings_row

text \<open>
  \<^verbatim>\<open>not last_checked or (real_now - last_checked).seconds > 10\<close>. A datetime is always
  truthy, so the first disjunct holds exactly when the entry is \<^verbatim>\<open>None\<close>.
\<close>

definition refresh_due :: "system_time_settings \<Rightarrow> datetime \<Rightarrow> bool" where
  "refresh_due c real_now =
     (case last_checked c of
        None \<Rightarrow> True
      | Some lc \<Rightarrow> timedelta_seconds (real_now - lc) > 10)"

text \<open>The body of the \<^verbatim>\<open>try\<close> of \<^verbatim>\<open>get_system_time\<close> with its \<^verbatim>\<open>except\<close>. The comparison
  of the cached start with the row's is Python's \<^verbatim>\<open>!=\<close> on the two objects.\<close>

definition refresh_settings ::
  "fetch_result \<Rightarrow> datetime \<Rightarrow> system_time_settings \<Rightarrow> system_time_settings" where
  "refresh_settings res real_now c =
     (case res of
        FetchError \<Rightarrow> c\<lparr>override_enabled := False\<rparr>
      | NoData \<Rightarrow> c\<lparr>last_checked := Some real_now\<rparr>
      | Row r \<Rightarrow>
          (let c1 =
             (if simulated_start_time c \<noteq> row_simulated_datetime r
                 \<or> override_enabled c \<noteq> row_override_enabled r
              then c\<lparr>simulated_start_time := row_simulated_datetime r,
                     real_time_at_set := Some real_now\<rparr>
              else c)
           in c1\<lparr>override_enabled := row_override_enabled r,
                  last_checked := Some real_now\<rparr>))"

text \<open>
  \<^verbatim>\<open>get_system_time()\<close>, given the offset of the server's own zone, the real clock's
  reading and what the settings query gives if it is made. It returns the system time
  and the updated dictionary.
\<close>

definition get_system_time ::
  "timedelta \<Rightarrow> fetch_result \<Rightarrow> datetime \<Rightarrow> system_time_settings
   \<Rightarrow> datetime \<times> system_time_settings" where
  "get_system_time local_offset res real_now c0 =
     (let c = (if refresh_due c0 real_now then refresh_settings res real_now c0 else c0)
      in if override_enabled c then
           (case simulated_start_time c of
              None \<Rightarrow> (real_now, c)
            | Some utc_sim_start \<Rightarrow>
                (case real_time_at_set c of
                   None \<Rightarrow> (real_now, c)
                 | Some pinned \<Rightarrow>
                     (astimezone local_offset utc_sim_start + (real_now - pinned), c)))
         else (real_now, c))"

text \<open>Successive calls of \<^verbatim>\<open>get_system_time\<close>, each with its own clock reading and
  query result, threading the dictionary.\<close>

fun system_time_calls ::
  "timedelta \<Rightarrow> (fetch_result \<times> datetime) list \<Rightarrow> system_time_settings \<Rightarrow> datetime list" where
  "system_time_calls local_offset [] c = []"
| "system_time_calls local_offset ((res, real_now) # calls) c =
     (case get_system_time local_offset res real_now c of
        (t, c') \<Rightarrow> t # system_time_calls local_offset calls c')"

text \<open>
  The POST branch of \<^verbatim>\<open>api_system_time_control\<close>, reached with a bearer token that the
  auth service accepted (\<open>authorized\<close>); otherwise the handler answers 401 and touches
  nothing. The request carries the override flag and the simulated start as
  \<^verbatim>\<open>fromisoformat\<close> reads its text (\<open>None\<close> for no text or an empty one). The handler
  writes the text to the store and caches the datetime it parsed itself. What the store
  hands back for a datetime written to it depends on the column, which is declared
  outside the program: \<open>store_keeps\<close> is that conversion. \<open>now_pin\<close> and \<open>now_checked\<close>
  are the two readings of the real clock.
\<close>

record time_control_request =
  req_override_enabled :: bool
  req_simulated_datetime :: "pydatetime option"

definition api_system_time_control_POST ::
  "(pydatetime \<Rightarrow> pydatetime) \<Rightarrow> bool \<Rightarrow> time_control_request \<Rightarrow> datetime \<Rightarrow> datetime \<Rightarrow>
   settings_row \<times> system_time_settings \<Rightarrow> nat \<times> settings_row \<times> system_time_settings" where
  "api_system_time_control_POST store_keeps authorized data now_pin now_checked st =
     (case st of (row, c) \<Rightarrow>
        if \<not> authorized then (401, row, c)
        else
          (let row' = \<lparr>row_override_enabled = req_override_enabled data,
                       row_simulated_datetime =
                         map_option store_keeps (req_simulated_datetime data)\<rparr>;
               c1 = c\<lparr>override_enabled := req_override_enabled data\<rparr>;
               c2 = (case req_simulated_datetime data of
                       None \<Rightarrow> c1
                     | Some sim \<Rightarrow> c1\<lparr>simulated_start_time := Some sim,
                                         real_time_at_set := Some now_pin\<rparr>)
           in (200, row', c2\<lparr>last_checked := Some now_checked\<rparr>)))"

text \<open>
  A column that keeps instants, as the code takes the store's to be when it names the
  value read back \<^verbatim>\<open>utc_sim_start\<close>: a text without offset is read in the store's zone,
  UTC, and every value comes back with its offset.
\<close>

definition timestamptz_column :: "pydatetime \<Rightarrow> pydatetime" where
  "timestamptz_column dt = (case dt of Aware i \<Rightarrow> Aware i | Naive w \<Rightarrow> Aware w)"

subsection \<open>The open class session\<close>

text \<open>A row of table \<^verbatim>\<open>class_timetable\<close>; the times are stored as text, \<^verbatim>\<open>HH:MM:SS\<close>.\<close>

record timetable_row =
  tt_id :: int
  tt_module_id :: int
  tt_day_of_week :: int
  tt_start_time :: string
  tt_end_time :: string

text \<open>
  \<^verbatim>\<open>datetime.strptime(s, '%H:%M:%S').time()\<close>: three fields of one or two decimal digits
  separated by colons, an hour below 24, a minute and a second below 60, and nothing
  else; any other text raises \<^verbatim>\<open>ValueError\<close>, here \<open>None\<close>. The result is the time
  of day, with no fraction of a second.
\<close>

definition digit_value :: "char \<Rightarrow> nat option" where
  "digit_value c =
     (let n = (of_char c :: nat) in if 48 \<le> n \<and> n \<le> 57 then Some (n - 48) else None)"

fun two_digits :: "string \<Rightarrow> nat option" where
  "two_digits [a] = digit_value a"
| "two_digits [a, b] =
     (case digit_value a of
        None \<Rightarrow> None
      | Some x \<Rightarrow> (case digit_value b of None \<Rightarrow> None | Some y \<Rightarrow> Some (10 * x + y)))"
| "two_digits _ = None"

fun split_on :: "char \<Rightarrow> string \<Rightarrow> string list" where
  "split_on sep [] = [[]]"
| "split_on sep (c # cs) =
     (if c = sep then [] # split_on sep cs
      else (case split_on sep cs of
              [] \<Rightarrow> [[c]]
            | p # ps \<Rightarrow> (c # p) # ps))"

definition strptime_HMS :: "string \<Rightarrow> pytime option" where
  "strptime_HMS s =
     (case split_on (CHR '':'') s of
        [hh, mm, ss] \<Rightarrow>
          (case two_digits hh of
             None \<Rightarrow> None
           | Some h \<Rightarrow>
               (case two_digits mm of
                  None \<Rightarrow> None
                | Some m \<Rightarrow>
                    (case two_digits ss of
                       None \<Rightarrow> None
                     | Some sec \<Rightarrow>
                         if h < 24 \<and> m < 60 \<and> sec < 60
                         then Some (int (h * 3600 + m * 60 + sec) * us_per_second)
                         else None)))
      | _ \<Rightarrow> None)"

text \<open>
  The loop of \<^verbatim>\<open>get_current_class_session\<close> over the rows of the day. The end of the
  attendance window is computed as a datetime on the current date and then cut down to
  its time of day. An exception (a start time that does not parse) ends the function
  with \<^verbatim>\<open>None\<close>.
\<close>

fun find_session :: "pytime \<Rightarrow> timetable_row list \<Rightarrow> timetable_row option" where
  "find_session current_time [] = None"
| "find_session current_time (session # rest) =
     (case strptime_HMS (tt_start_time session) of
        None \<Rightarrow> None
      | Some start_time \<Rightarrow>
          (let attendance_end_time = (start_time + thirty_minutes) mod us_per_day
           in if start_time \<le> current_time \<and> current_time \<le> attendance_end_time
              then Some session
              else find_session current_time rest))"

text \<open>The rows the query \<^verbatim>\<open>eq('day_of_week', now.weekday() + 1)\<close> selects.\<close>

definition sessions_of_day :: "datetime \<Rightarrow> timetable_row list \<Rightarrow> timetable_row list" where
  "sessions_of_day now timetable =
     filter (\<lambda>r. tt_day_of_week r = weekday now + 1) timetable"

text \<open>\<^verbatim>\<open>get_current_class_session()\<close>, given the system time \<open>now\<close> it reads.\<close>

definition get_current_class_session ::
  "datetime \<Rightarrow> timetable_row list \<Rightarrow> timetable_row option" where
  "get_current_class_session now timetable =
     (let current_time = time_of now;
          data = sessions_of_day now timetable
      in if data = [] then None else find_session current_time data)"

text \<open>
  The attendance window in the specification's words: a session with start time \<open>T\<close> is
  open at the times of day from \<open>T\<close> to \<open>T\<close> plus 30 minutes, both included.
\<close>

definition window_open :: "timetable_row \<Rightarrow> pytime \<Rightarrow> bool" where
  "window_open session t =
     (case strptime_HMS (tt_start_time session) of
        None \<Rightarrow> False
      | Some T \<Rightarrow> T \<le> t \<and> t \<le> T + thirty_minutes)"

text \<open>A start time that parses and whose window ends before midnight.\<close>

definition ends_before_midnight :: "timetable_row \<Rightarrow> bool" where
  "ends_before_midnight session =
     (case strptime_HMS (tt_start_time session) of
        None \<Rightarrow> False
      | Some T \<Rightarrow> T + thirty_minutes < us_per_day)"

text \<open>
  A session whose start time does not parse ends the function with \<^verbatim>\<open>None\<close>, so the loop
  gets to the sessions of the day before the first such one only. \<open>first_open_session\<close>
  is the first of these, in table order, whose window contains the time of day.
\<close>

definition start_time_parses :: "timetable_row \<Rightarrow> bool" where
  "start_time_parses session = (strptime_HMS (tt_start_time session) \<noteq> None)"

definition readable_sessions :: "datetime \<Rightarrow> timetable_row list \<Rightarrow> timetable_row list" where
  "readable_sessions now timetable = takeWhile start_time_parses (sessions_of_day now timetable)"

definition first_open_session :: "datetime \<Rightarrow> timetable_row list \<Rightarrow> timetable_row option" where
  "first_open_session now timetable =
     find (\<lambda>r. window_open r (time_of now)) (readable_sessions now timetable)"

subsection \<open>The tables of the store\<close>

text \<open>Student ids are the auth service's identifiers (text); module ids are numbers.
  A status is \<^verbatim>\<open>'present'\<close> or \<^verbatim>\<open>'absent'\<close>. A module row carries the name of its lecturer
  when the embedded \<^verbatim>\<open>lecturers(full_name)\<close> resource is there.\<close>

record attendance_record =
  ar_student_id :: string
  ar_module_id :: int
  ar_status :: string
  ar_created_at :: datetime

record student_row =
  st_id :: string
  st_full_name :: string
  st_email :: string
  st_module_code :: string

record module_row =
  mod_id :: int
  mod_module_code :: string
  mod_lecturer :: "string option"

record lecture_row =
  lec_date :: pydate
  lec_module_id :: int

record warning_row =
  w_student_id :: string
  w_module_id :: int
  w_warning_level :: int
  w_total_absences :: int

record database =
  class_timetable :: "timetable_row list"
  attendance_records :: "attendance_record list"
  students :: "student_row list"
  modules :: "module_row list"
  lecture_schedules :: "lecture_row list"
  at_risk_warnings :: "warning_row list"

subsection \<open>Marking attendance\<close>

text \<open>
  The vision side is external: decoding the capture (\<^verbatim>\<open>base64.b64decode\<close> and
  \<^verbatim>\<open>cv2.imdecode\<close>), \<^verbatim>\<open>DeepFace.represent\<close> with detection enforced or not, and the
  similarity search \<^verbatim>\<open>match_student\<close> of the store. Each is a function of the handler's
  environment; \<open>None\<close> stands for a raised exception. The components of an embedding are
  not looked at here.
\<close>

type_synonym image = "nat list"
type_synonym embedding = "int list"

record match_row =
  match_id :: string
  match_full_name :: string

record vision =
  decode_image :: "string \<Rightarrow> image option"
  represent :: "bool \<Rightarrow> image \<Rightarrow> embedding list option"
  match_student :: "embedding \<Rightarrow> match_row list"

text \<open>\<^verbatim>\<open>get_face_embedding(image)\<close>: the strict attempt, and the relaxed one only when the
  strict one raised.\<close>

definition get_face_embedding :: "vision \<Rightarrow> image \<Rightarrow> embedding option" where
  "get_face_embedding v img =
     (case represent v True img of
        Some embedding_objs \<Rightarrow>
          (case embedding_objs of [] \<Rightarrow> None | e # _ \<Rightarrow> Some e)
      | None \<Rightarrow>
          (case represent v False img of
             Some embedding_objs \<Rightarrow>
               (case embedding_objs of [] \<Rightarrow> None | e # _ \<Rightarrow> Some e)
           | None \<Rightarrow> None))"

text \<open>\<^verbatim>\<open>header, encoded = s.split(",", 1)\<close>: without a comma the unpacking raises.\<close>

definition split_data_url :: "string \<Rightarrow> (string \<times> string) option" where
  "split_data_url s =
     (case dropWhile (\<lambda>c. c \<noteq> CHR '','') s of
        [] \<Rightarrow> None
      | _ # encoded \<Rightarrow> Some (takeWhile (\<lambda>c. c \<noteq> CHR '','') s, encoded))"

text \<open>The JSON bodies the handler answers with, and the response with its status code.\<close>

datatype response_body = ErrorBody string | MarkedBody string string

type_synonym response = "response_body \<times> nat"

text \<open>
  What the handler reads from the clock while it serves one request: the system time
  inside \<^verbatim>\<open>get_current_class_session\<close>, the system time whose midnight bounds the
  duplicate check, the cached override flag and the system time stamped on the new
  record when that flag is set, and the store's own clock, which stamps the record
  otherwise.
\<close>

record clock_readings =
  now_session :: datetime
  now_day :: datetime
  override_on :: bool
  now_stamp :: datetime
  store_now :: datetime

text \<open>The query of the duplicate check: records of the student in the module created at
  or after \<open>today_start\<close>; the status is not part of the filter.\<close>

definition existing_records ::
  "string \<Rightarrow> int \<Rightarrow> datetime \<Rightarrow> attendance_record list \<Rightarrow> attendance_record list" where
  "existing_records student_id module_id today_start records =
     filter (\<lambda>r. ar_student_id r = student_id \<and> ar_module_id r = module_id
                 \<and> today_start \<le> ar_created_at r) records"

text \<open>\<^verbatim>\<open>api_mark_attendance()\<close>. The request body is the value of its \<^verbatim>\<open>image_data\<close> entry,
  a text, \<open>None\<close> when the body is empty or has no such entry; an entry that is not a
  text is not part of the model.\<close>

definition api_mark_attendance ::
  "clock_readings \<Rightarrow> vision \<Rightarrow> string option \<Rightarrow> database \<Rightarrow> response \<times> database" where
  "api_mark_attendance clk v image_data db =
     (case get_current_class_session (now_session clk) (class_timetable db) of
        None \<Rightarrow>
          ((ErrorBody ''The attendance window for this class is not open.'', 403), db)
      | Some active_class \<Rightarrow>
     (case image_data of
        None \<Rightarrow> ((ErrorBody ''No image data provided.'', 400), db)
      | Some url \<Rightarrow>
     (case split_data_url url of
        None \<Rightarrow> ((ErrorBody ''An unexpected server error occurred.'', 500), db)
      | Some (header, encoded) \<Rightarrow>
     (case decode_image v encoded of
        None \<Rightarrow> ((ErrorBody ''An unexpected server error occurred.'', 500), db)
      | Some live_image \<Rightarrow>
     (case get_face_embedding v live_image of
        None \<Rightarrow> ((ErrorBody ''No face could be detected in the image.'', 400), db)
      | Some emb \<Rightarrow>
          if emb = [] then ((ErrorBody ''No face could be detected in the image.'', 400), db)
          else
     (case match_student v emb of
        [] \<Rightarrow> ((ErrorBody ''Face not recognized.'', 404), db)
      | best_match # _ \<Rightarrow>
          (let student_id = match_id best_match;
               full_name = match_full_name best_match;
               today_start = start_of_day (now_day clk);
               existing_record =
                 existing_records student_id (tt_module_id active_class) today_start
                   (attendance_records db)
           in if length existing_record > 0
              then ((ErrorBody (full_name @ '' has already been marked present for this class.''),
                     409), db)
              else
                (let attendance_record =
                       \<lparr>ar_student_id = student_id,
                        ar_module_id = tt_module_id active_class,
                        ar_status = ''present'',
                        ar_created_at =
                          (if override_on clk then now_stamp clk else store_now clk)\<rparr>
                 in ((MarkedBody (''Attendance marked for '' @ full_name @ ''!'') full_name,
                      200),
                     db\<lparr>attendance_records := attendance_records db @ [attendance_record]\<rparr>)))))))))"

text \<open>The capture of a request resolves to a student: it decodes, an embedding is
  extracted, and the best match of the similarity search is that student.\<close>

definition resolves_to :: "vision \<Rightarrow> string option \<Rightarrow> string \<Rightarrow> string \<Rightarrow> bool" where
  "resolves_to v image_data student_id full_name =
     (case image_data of
        None \<Rightarrow> False
      | Some url \<Rightarrow>
     (case split_data_url url of
        None \<Rightarrow> False
      | Some (header, encoded) \<Rightarrow>
     (case decode_image v encoded of
        None \<Rightarrow> False
      | Some live_image \<Rightarrow>
     (case get_face_embedding v live_image of
        None \<Rightarrow> False
      | Some emb \<Rightarrow>
          emb \<noteq> [] \<and>
          (case match_student v emb of
             [] \<Rightarrow> False
           | best_match # _ \<Rightarrow>
               match_id best_match = student_id \<and> match_full_name best_match = full_name)))))"

subsection \<open>The startup backfill\<close>

text \<open>
  The backfill writes timestamps as text without a zone, \<^verbatim>\<open>f"{lecture_date_str}T17:00:00"\<close>,
  and filters with \<^verbatim>\<open>T00:00:00\<close> and \<^verbatim>\<open>T23:59:59\<close> of the same date; the store reads all
  three in its own zone, UTC. \<open>timestamp_on d n\<close> is second \<open>n\<close> of day \<open>d\<close> there.
\<close>

definition timestamp_on :: "pydate \<Rightarrow> int \<Rightarrow> datetime" where
  "timestamp_on d n = d * us_per_day + n * us_per_second"

text \<open>The existence query: records of the module created on the lecture's date.\<close>

definition records_on_day :: "int \<Rightarrow> pydate \<Rightarrow> attendance_record list \<Rightarrow> attendance_record list" where
  "records_on_day module_id d records =
     filter (\<lambda>r. ar_module_id r = module_id
                 \<and> timestamp_on d 0 \<le> ar_created_at r
                 \<and> ar_created_at r \<le> timestamp_on d 86399) records"

text \<open>The students enrolled in a module, by module code.\<close>

definition enrolled_students :: "string \<Rightarrow> student_row list \<Rightarrow> student_row list" where
  "enrolled_students module_code studs = filter (\<lambda>s. st_module_code s = module_code) studs"

text \<open>The \<^verbatim>\<open>absent\<close> records the backfill builds for one lecture.\<close>

definition absent_records :: "lecture_row \<Rightarrow> student_row list \<Rightarrow> attendance_record list" where
  "absent_records lecture enrolled =
     map (\<lambda>student.
            \<lparr>ar_student_id = st_id student,
             ar_module_id = lec_module_id lecture,
             ar_status = ''absent'',
             ar_created_at = timestamp_on (lec_date lecture) 61200\<rparr>) enrolled"

text \<open>
  The loop of \<^verbatim>\<open>backfill_missed_attendance\<close> over the past lectures. Each lecture row
  comes with its module embedded; when there is none, reading the module code raises,
  the handler at the end of the function logs it, and the run stops with the records
  written so far.
\<close>

fun backfill_lectures :: "lecture_row list \<Rightarrow> database \<Rightarrow> database" where
  "backfill_lectures [] db = db"
| "backfill_lectures (lecture # rest) db =
     (case find (\<lambda>m. mod_id m = lec_module_id lecture) (modules db) of
        None \<Rightarrow> db
      | Some m \<Rightarrow>
          if length (records_on_day (lec_module_id lecture) (lec_date lecture)
                       (attendance_records db)) = 0
          then
            (let enrolled = enrolled_students (mod_module_code m) (students db)
             in if enrolled = [] then backfill_lectures rest db
                else backfill_lectures rest
                       (db\<lparr>attendance_records :=
                             attendance_records db @ absent_records lecture enrolled\<rparr>))
          else backfill_lectures rest db)"

text \<open>The rows the query \<^verbatim>\<open>lt('lecture_date', today.isoformat())\<close> selects.\<close>

definition past_lectures :: "datetime \<Rightarrow> database \<Rightarrow> lecture_row list" where
  "past_lectures now db = filter (\<lambda>l. lec_date l < date_of now) (lecture_schedules db)"

text \<open>\<^verbatim>\<open>backfill_missed_attendance()\<close>, given the system time it reads.\<close>

definition backfill_missed_attendance :: "datetime \<Rightarrow> database \<Rightarrow> database" where
  "backfill_missed_attendance now db =
     (let past = past_lectures now db
      in if past = [] then db else backfill_lectures past db)"

text \<open>A lecture whose backfill has something to write: its module is there and has an
  enrolled student.\<close>

definition has_enrolled :: "database \<Rightarrow> lecture_row \<Rightarrow> bool" where
  "has_enrolled db lecture =
     (case find (\<lambda>m. mod_id m = lec_module_id lecture) (modules db) of
        None \<Rightarrow> False
      | Some m \<Rightarrow> enrolled_students (mod_module_code m) (students db) \<noteq> [])"

definition module_embedded :: "database \<Rightarrow> lecture_row \<Rightarrow> bool" where
  "module_embedded db lecture =
     (find (\<lambda>m. mod_id m = lec_module_id lecture) (modules db) \<noteq> None)"

subsection \<open>At-risk warnings\<close>

text \<open>
  An email as handed to \<^verbatim>\<open>send_email\<close>: the recipient, the subject, and the body. The
  bodies are fixed texts of the source with values filled in; a body is modelled by the
  text it instantiates (the at-risk level, or the weekly group) and those values. The
  mail relay is external: \<open>smtp e\<close> tells whether \<^verbatim>\<open>send_email\<close> returned \<^verbatim>\<open>True\<close> for \<open>e\<close>.
\<close>

datatype email_body =
  AtRiskBody int string string int int string
| WeeklyPerfectBody string string string
| WeeklyZeroBody string string string

record email =
  em_recipient :: string
  em_subject :: string
  em_body :: email_body

text \<open>The level of the at-risk warning an email carries, if it is one.\<close>

fun warning_level_of :: "email_body \<Rightarrow> int option" where
  "warning_level_of (AtRiskBody level student_name module_code absences mark lecturer) = Some level"
| "warning_level_of _ = None"


text \<open>The ledger query: warnings already sent to the student in the module at a level.\<close>

definition existing_warning :: "string \<Rightarrow> int \<Rightarrow> int \<Rightarrow> warning_row list \<Rightarrow> warning_row list" where
  "existing_warning student_id module_id level ledger =
     filter (\<lambda>w. w_student_id w = student_id \<and> w_module_id w = module_id
                 \<and> w_warning_level w = level) ledger"

text \<open>The lecturer's name for the signature, \<^verbatim>\<open>"Your Lecturer"\<close> unless the module row and
  its lecturer are there.\<close>

definition lecturer_name_of :: "int \<Rightarrow> module_row list \<Rightarrow> string" where
  "lecturer_name_of module_id mods =
     (case find (\<lambda>m. mod_id m = module_id) mods of
        None \<Rightarrow> ''Your Lecturer''
      | Some m \<Rightarrow> (case mod_lecturer m of None \<Rightarrow> ''Your Lecturer'' | Some n \<Rightarrow> n))"

text \<open>
  The email for a threshold. The mark is \<^verbatim>\<open>(50 - total_absences) / 50 * 100\<close>, printed
  without decimals. A threshold other than 16, 18 or 21 would leave \<^verbatim>\<open>subject\<close>
  unbound (\<open>None\<close>).
\<close>

definition at_risk_email :: "int \<Rightarrow> student_row \<Rightarrow> string \<Rightarrow> int \<Rightarrow> email option" where
  "at_risk_email threshold student lecturer_name total_absences =
     (let module_code = st_module_code student;
          current_mark = 2 * (50 - total_absences);
          body = AtRiskBody threshold (st_full_name student) module_code total_absences
                   current_mark lecturer_name
      in if threshold = 16 then
           Some \<lparr>em_recipient = st_email student,
                 em_subject = ''Check-in: We miss you in '' @ module_code,
                 em_body = body\<rparr>
         else if threshold = 18 then
           Some \<lparr>em_recipient = st_email student,
                 em_subject = ''Urgent: Your attendance in '' @ module_code @ '' needs attention'',
                 em_body = body\<rparr>
         else if threshold = 21 then
           Some \<lparr>em_recipient = st_email student,
                 em_subject = ''CRITICAL: You are at risk of failing '' @ module_code,
                 em_body = body\<rparr>
         else None)"

text \<open>
  The loop of \<^verbatim>\<open>check_and_send_at_risk_warning\<close> over the thresholds, on the store and
  the list of emails sent so far. An exception leaves the loop with what has been done.
\<close>

fun warning_loop ::
  "(email \<Rightarrow> bool) \<Rightarrow> string \<Rightarrow> int \<Rightarrow> int \<Rightarrow> int list \<Rightarrow> database \<times> email list
   \<Rightarrow> database \<times> email list" where
  "warning_loop smtp student_id module_id total_absences [] st = st"
| "warning_loop smtp student_id module_id total_absences (threshold # rest) (db, sent) =
     (if total_absences = threshold then
        (if existing_warning student_id module_id threshold (at_risk_warnings db) \<noteq> []
         then warning_loop smtp student_id module_id total_absences rest (db, sent)
         else
           (case find (\<lambda>s. st_id s = student_id) (students db) of
              None \<Rightarrow> warning_loop smtp student_id module_id total_absences rest (db, sent)
            | Some student \<Rightarrow>
                (case at_risk_email threshold student
                        (lecturer_name_of module_id (modules db)) total_absences of
                   None \<Rightarrow> (db, sent)
                 | Some e \<Rightarrow>
                     if smtp e then
                       warning_loop smtp student_id module_id total_absences rest
                         (db\<lparr>at_risk_warnings := at_risk_warnings db @
                               [\<lparr>w_student_id = student_id, w_module_id = module_id,
                                 w_warning_level = threshold,
                                 w_total_absences = total_absences\<rparr>]\<rparr>,
                          sent @ [e])
                     else warning_loop smtp student_id module_id total_absences rest (db, sent))))
      else warning_loop smtp student_id module_id total_absences rest (db, sent))"


text \<open>What the loop does at the one threshold the count is equal to, when it starts with
  no email sent: the other thresholds are passed over.\<close>

definition warning_step ::
  "(email \<Rightarrow> bool) \<Rightarrow> string \<Rightarrow> int \<Rightarrow> int \<Rightarrow> database \<Rightarrow> database \<times> email list" where
  "warning_step smtp student_id module_id threshold db =
     (if existing_warning student_id module_id threshold (at_risk_warnings db) \<noteq> [] then (db, [])
      else
        (case find (\<lambda>s. st_id s = student_id) (students db) of
           None \<Rightarrow> (db, [])
         | Some student \<Rightarrow>
             (case at_risk_email threshold student
                     (lecturer_name_of module_id (modules db)) threshold of
                None \<Rightarrow> (db, [])
              | Some e \<Rightarrow>
                  if smtp e then
                    (db\<lparr>at_risk_warnings := at_risk_warnings db @
                          [\<lparr>w_student_id = student_id, w_module_id = module_id,
                            w_warning_level = threshold, w_total_absences = threshold\<rparr>]\<rparr>,
                     [e])
                  else (db, []))))"

text \<open>The emails of a list that are at-risk warnings of a level.\<close>

definition warnings_at :: "int \<Rightarrow> email list \<Rightarrow> email list" where
  "warnings_at level sent = filter (\<lambda>e. warning_level_of (em_body e) = Some level) sent"

subsection \<open>Submitting a campaign response\<close>

text \<open>
  A row of table \<^verbatim>\<open>campaigns\<close> and one of table \<^verbatim>\<open>campaign_questions\<close>; the correct answer
  is stored for scored multiple-choice questions only. A submitted response is a JSON
  object from question ids, written as text, to answers; Python reads it as a
  dictionary, whose items come in the order of the document. Arrays and objects as
  answers are not told apart.
\<close>

record campaign_row =
  camp_id :: int
  camp_type :: string

record question_row =
  q_id :: int
  q_campaign_id :: int
  q_correct_answer :: "string option"

datatype json_value = JNull | JBool bool | JNumber int | JString string | JComposite

type_synonym responses = "(string \<times> json_value) list"

text \<open>
  \<^verbatim>\<open>int(s)\<close> for a text \<open>s\<close> of at most 4300 ASCII characters: surrounding whitespace (tab
  to carriage return, the four separators from 28 to 31, the space) is dropped, a sign
  may come first, and the decimal digits may be separated by single underscores;
  leading zeros are allowed. Anything else raises \<^verbatim>\<open>ValueError\<close>, here \<open>None\<close>. What the
  interpreter makes of any other text (characters outside ASCII, among them further
  spaces and digits, or more digits than its conversion limit admits) is not modelled:
  \<open>other\<close> stands for its answer.
\<close>

definition is_space :: "char \<Rightarrow> bool" where
  "is_space c =
     (let n = (of_char c :: nat) in n = 32 \<or> (9 \<le> n \<and> n \<le> 13) \<or> (28 \<le> n \<and> n \<le> 31))"

definition strip :: "string \<Rightarrow> string" where
  "strip s = rev (dropWhile is_space (rev (dropWhile is_space s)))"

fun more_digits :: "nat \<Rightarrow> string \<Rightarrow> nat option" where
  "more_digits acc [] = Some acc"
| "more_digits acc [c] =
     (case digit_value c of None \<Rightarrow> None | Some v \<Rightarrow> Some (10 * acc + v))"
| "more_digits acc (c # d # cs) =
     (if c = CHR ''_'' then
        (case digit_value d of None \<Rightarrow> None | Some v \<Rightarrow> more_digits (10 * acc + v) cs)
      else
        (case digit_value c of None \<Rightarrow> None | Some v \<Rightarrow> more_digits (10 * acc + v) (d # cs)))"

definition unsigned_int :: "string \<Rightarrow> nat option" where
  "unsigned_int s =
     (case s of
        [] \<Rightarrow> None
      | c # cs \<Rightarrow> (case digit_value c of None \<Rightarrow> None | Some v \<Rightarrow> more_digits v cs))"

definition ascii_int :: "string \<Rightarrow> int option" where
  "ascii_int s =
     (case strip s of
        [] \<Rightarrow> None
      | c # cs \<Rightarrow>
          if c = CHR ''-'' then map_option (\<lambda>n. - int n) (unsigned_int cs)
          else if c = CHR ''+'' then map_option int (unsigned_int cs)
          else map_option int (unsigned_int (c # cs)))"

definition py_int :: "(string \<Rightarrow> int option) \<Rightarrow> string \<Rightarrow> int option" where
  "py_int other s =
     (if length s \<le> 4300 \<and> list_all (\<lambda>c. (of_char c :: nat) < 128) s then ascii_int s
      else other s)"

text \<open>The dictionary \<^verbatim>\<open>{q['id']: q['correct_answer'] for q in questions_res.data}\<close>; a
  later row replaces an earlier one with the same id.\<close>

definition correct_answers_map :: "question_row list \<Rightarrow> (int \<rightharpoonup> string option)" where
  "correct_answers_map qs = map_of (rev (map (\<lambda>q. (q_id q, q_correct_answer q)) qs))"

text \<open>\<^verbatim>\<open>correct_answers_map.get(k)\<close>: \<^verbatim>\<open>None\<close> for a missing key and for a stored null.\<close>

definition dict_get :: "(int \<rightharpoonup> string option) \<Rightarrow> int \<Rightarrow> string option" where
  "dict_get m k = (case m k of None \<Rightarrow> None | Some v \<Rightarrow> v)"

text \<open>
  The scoring loop over the items of the response. \<^verbatim>\<open>correct_answer and ...\<close> is false
  for \<^verbatim>\<open>None\<close> and for the empty text. A key that is not an integer raises (\<open>None\<close>).
\<close>

fun score_loop ::
  "(string \<Rightarrow> int option) \<Rightarrow> (int \<rightharpoonup> string option) \<Rightarrow> responses \<Rightarrow> nat \<Rightarrow> nat option" where
  "score_loop other m [] score = Some score"
| "score_loop other m ((question_id, student_answer) # rest) score =
     (case py_int other question_id of
        None \<Rightarrow> None
      | Some k \<Rightarrow>
          (case dict_get m k of
             None \<Rightarrow> score_loop other m rest score
           | Some correct_answer \<Rightarrow>
               if correct_answer \<noteq> [] \<and> student_answer = JString correct_answer
               then score_loop other m rest (score + 1)
               else score_loop other m rest score))"

text \<open>
  \<^verbatim>\<open>api_submit_campaign_response()\<close>, up to the rows it inserts. The request body carries
  the token (\<open>None\<close> when there is none) and the responses (no items when the entry is
  missing or empty). \<open>loads\<close> is the serializer's decoding of the token into campaign and
  student, \<open>None\<close> when it raises (a forged or expired token). The outcome is a refusal
  with its status code, or the participant and response rows inserted (status 201), the
  response row with the computed score: no score unless the campaign is a weekly quiz.
\<close>

datatype submission_result = Rejected nat | Recorded "nat option"

definition api_submit_campaign_response ::
  "(string \<Rightarrow> int option) \<Rightarrow> (string \<Rightarrow> (int \<times> string) option) \<Rightarrow> string option \<Rightarrow> responses
   \<Rightarrow> campaign_row list \<Rightarrow> question_row list \<Rightarrow> (int \<times> string) list \<Rightarrow> submission_result" where
  "api_submit_campaign_response other loads token resp campaigns campaign_questions
     campaign_participants =
     (case token of
        None \<Rightarrow> Rejected 400
      | Some tok \<Rightarrow>
          if tok = [] \<or> resp = [] then Rejected 400
          else
     (case loads tok of
        None \<Rightarrow> Rejected 500
      | Some (campaign_id, student_id) \<Rightarrow>
          if filter (\<lambda>p. p = (campaign_id, student_id)) campaign_participants \<noteq> []
          then Rejected 409
          else
     (case find (\<lambda>c. camp_id c = campaign_id) campaigns of
        None \<Rightarrow> Recorded None
      | Some campaign \<Rightarrow>
          if camp_type campaign = ''WEEKLY_QUIZ'' then
            (let questions = filter (\<lambda>q. q_campaign_id q = campaign_id) campaign_questions
             in case score_loop other (correct_answers_map questions) resp 0 of
                  None \<Rightarrow> Rejected 500
                | Some score \<Rightarrow> Recorded (Some score))
          else Recorded None)))"






subsection \<open>The weekly summary\<close>

text \<open>
  A row of the bulk query of \<^verbatim>\<open>send_weekly_summary_emails\<close>: the status and student of an
  attendance record with the student's row embedded (\<open>None\<close> when there is none).
\<close>

record weekly_record =
  wr_status :: string
  wr_student_id :: string
  wr_details :: "student_row option"

text \<open>The records of a module created from the first day of the window, at midnight, to
  23:59:59 of its last day.\<close>

definition weekly_records :: "pydate \<Rightarrow> pydate \<Rightarrow> int \<Rightarrow> database \<Rightarrow> weekly_record list" where
  "weekly_records start_of_last_week end_of_last_week module_id db =
     map (\<lambda>r. \<lparr>wr_status = ar_status r,
                wr_student_id = ar_student_id r,
                wr_details = find (\<lambda>s. st_id s = ar_student_id r) (students db)\<rparr>)
       (filter (\<lambda>r. ar_module_id r = module_id
                    \<and> timestamp_on start_of_last_week 0 \<le> ar_created_at r
                    \<and> ar_created_at r \<le> timestamp_on end_of_last_week 86399)
          (attendance_records db))"

text \<open>
  The dictionary \<^verbatim>\<open>student_data\<close>, from student id to present count and details, in the
  order in which the students first occur; \<open>add_record\<close> is one pass of the loop that
  fills it.
\<close>

type_synonym student_data = "(string \<times> nat \<times> student_row option) list"

fun add_record :: "weekly_record \<Rightarrow> student_data \<Rightarrow> student_data" where
  "add_record r [] =
     [(wr_student_id r, (if wr_status r = ''present'' then 1 else 0), wr_details r)]"
| "add_record r ((student_id, present_count, details) # rest) =
     (if student_id = wr_student_id r
      then (student_id,
            (if wr_status r = ''present'' then present_count + 1 else present_count),
            wr_details r) # rest
      else (student_id, present_count, details) # add_record r rest)"

definition student_data_of :: "weekly_record list \<Rightarrow> student_data" where
  "student_data_of records = foldl (\<lambda>acc r. add_record r acc) [] records"

text \<open>The two groups, as the lists of emails built for them. A student without details or
  without an email address is passed over.\<close>

definition perfect_attendance :: "int \<Rightarrow> string \<Rightarrow> string \<Rightarrow> student_data \<Rightarrow> email list" where
  "perfect_attendance total_lectures module_code lecturer_name sd =
     concat (map (\<lambda>(student_id, present_count, details).
        (case details of
           None \<Rightarrow> []
         | Some d \<Rightarrow>
             if st_email d = [] then []
             else if int present_count = total_lectures then
               [\<lparr>em_recipient = st_email d,
                 em_subject = ''Great work in '' @ module_code @ '' last week!'',
                 em_body = WeeklyPerfectBody (st_full_name d) module_code lecturer_name\<rparr>]
             else [])) sd)"

definition zero_attendance :: "int \<Rightarrow> string \<Rightarrow> string \<Rightarrow> student_data \<Rightarrow> email list" where
  "zero_attendance total_lectures module_code lecturer_name sd =
     concat (map (\<lambda>(student_id, present_count, details).
        (case details of
           None \<Rightarrow> []
         | Some d \<Rightarrow>
             if st_email d = [] then []
             else if int present_count = total_lectures then []
             else if present_count = 0 then
               [\<lparr>em_recipient = st_email d,
                 em_subject = ''Checking in regarding '' @ module_code,
                 em_body = WeeklyZeroBody (st_full_name d) module_code lecturer_name\<rparr>]
             else [])) sd)"

text \<open>The emails handed to \<^verbatim>\<open>send_email\<close> for one module: none when no lecture was
  scheduled in the window or no record was found.\<close>

definition weekly_module_emails ::
  "pydate \<Rightarrow> pydate \<Rightarrow> database \<Rightarrow> module_row \<Rightarrow> string \<Rightarrow> email list" where
  "weekly_module_emails start_of_last_week end_of_last_week db m lecturer_name =
     (let total_lectures_this_week =
            int (length (filter (\<lambda>l. lec_module_id l = mod_id m
                                      \<and> start_of_last_week \<le> lec_date l
                                      \<and> lec_date l \<le> end_of_last_week)
                           (lecture_schedules db)))
      in if total_lectures_this_week = 0 then []
         else
           (let weekly = weekly_records start_of_last_week end_of_last_week (mod_id m) db
            in if weekly = [] then []
               else
                 (let sd = student_data_of weekly
                  in perfect_attendance total_lectures_this_week (mod_module_code m)
                       lecturer_name sd
                     @ zero_attendance total_lectures_this_week (mod_module_code m)
                         lecturer_name sd)))"

text \<open>The loop over the modules. A module without lecturer makes reading the lecturer's
  name raise; the function then ends, with the emails of the modules before it sent.\<close>

fun weekly_modules :: "pydate \<Rightarrow> pydate \<Rightarrow> database \<Rightarrow> module_row list \<Rightarrow> email list" where
  "weekly_modules start_of_last_week end_of_last_week db [] = []"
| "weekly_modules start_of_last_week end_of_last_week db (m # rest) =
     (case mod_lecturer m of
        None \<Rightarrow> []
      | Some lecturer_name \<Rightarrow>
          weekly_module_emails start_of_last_week end_of_last_week db m lecturer_name
          @ weekly_modules start_of_last_week end_of_last_week db rest)"

text \<open>\<^verbatim>\<open>send_weekly_summary_emails()\<close>, given the system time it reads: the emails it hands
  to \<^verbatim>\<open>send_email\<close>.\<close>

definition start_of_last_week :: "datetime \<Rightarrow> pydate" where
  "start_of_last_week now = date_of now - (weekday now + 7)"

definition end_of_last_week :: "datetime \<Rightarrow> pydate" where
  "end_of_last_week now = date_of now - (weekday now + 1)"

definition send_weekly_summary_emails :: "datetime \<Rightarrow> database \<Rightarrow> email list" where
  "send_weekly_summary_emails now db =
     weekly_modules (start_of_last_week now) (end_of_last_week now) db (modules db)"

text \<open>The addresses of the students who have a record of a module in the window.\<close>

definition weekly_addresses :: "pydate \<Rightarrow> pydate \<Rightarrow> database \<Rightarrow> int \<Rightarrow> string set" where
  "weekly_addresses start_of_week end_of_week db module_id =
     set (concat (map (\<lambda>r. case wr_details r of None \<Rightarrow> [] | Some d \<Rightarrow> [st_email d])
                    (weekly_records start_of_week end_of_week module_id db)))"

text \<open>A small store and environment, used to instantiate the results below: one Monday
  session of module 1 from 10:00:00, one enrolled student, a camera whose strict
  detection raises and whose relaxed detection finds the student, a camera that finds
  no face at all, and the clock of Monday 2025-03-03 at 10:20:00 with the override
  off.\<close>

definition example_db :: database where
  "example_db =
     \<lparr>class_timetable =
        [\<lparr>tt_id = 1, tt_module_id = 1, tt_day_of_week = 1, tt_start_time = ''10:00:00'',
          tt_end_time = ''11:00:00''\<rparr>],
      attendance_records = [],
      students =
        [\<lparr>st_id = ''s-1'', st_full_name = ''Thandi Nkosi'', st_email = ''thandi@dut4life.ac.za'',
          st_module_code = ''SODM401''\<rparr>],
      modules =
        [\<lparr>mod_id = 1, mod_module_code = ''SODM401'', mod_lecturer = Some ''Dr Pillay''\<rparr>],
      lecture_schedules = [],
      at_risk_warnings = []\<rparr>"

definition example_camera :: vision where
  "example_camera =
     \<lparr>decode_image = (\<lambda>encoded. Some [255, 216]),
      represent = (\<lambda>enforce_detection img. if enforce_detection then None else Some [[3, 4]]),
      match_student = (\<lambda>emb. [\<lparr>match_id = ''s-1'', match_full_name = ''Thandi Nkosi''\<rparr>])\<rparr>"

definition example_blind_camera :: vision where
  "example_blind_camera =
     \<lparr>decode_image = (\<lambda>encoded. Some [255, 216]),
      represent = (\<lambda>enforce_detection img. None),
      match_student = (\<lambda>emb. [])\<rparr>"

definition example_clock :: clock_readings where
  "example_clock =
     \<lparr>now_session = 1740990000000000, now_day = 1740990000000000, override_on = False,
      now_stamp = 1740990000000000, store_now = 1740990001000000\<rparr>"





text \<open>The store on Sunday 2025-03-09: a second student is enrolled; module 1 had one
  lecture in the week before, on 2025-02-28, at which the first student was marked
  present and for which the second has no record.\<close>

definition example_week_db :: database where
  "example_week_db =
     example_db
       \<lparr>students := students example_db @
          [\<lparr>st_id = ''s-2'', st_full_name = ''Sipho Dube'', st_email = ''sipho@dut4life.ac.za'',
            st_module_code = ''SODM401''\<rparr>],
        lecture_schedules := [\<lparr>lec_date = 20147, lec_module_id = 1\<rparr>],
        attendance_records :=
          [\<lparr>ar_student_id = ''s-1'', ar_module_id = 1, ar_status = ''present'',
            ar_created_at = 1740729900000000\<rparr>]\<rparr>"

section \<open>Properties\<close>

subsection \<open>The simulated clock and the real clock\<close>

lemma get_system_time_pinned:
  assumes "override_enabled c" "simulated_start_time c = Some S" "real_time_at_set c = Some R0"
    and "res = NoData \<or> res = Row \<lparr>row_override_enabled = True, row_simulated_datetime = Some S\<rparr>"
  shows "fst (get_system_time z res t c) = astimezone z S + (t - R0)"
    and "override_enabled (snd (get_system_time z res t c))"
    and "simulated_start_time (snd (get_system_time z res t c)) = Some S"
    and "real_time_at_set (snd (get_system_time z res t c)) = Some R0"
  using assms by (auto simp: get_system_time_def refresh_settings_def Let_def)

lemma system_time_calls_pinned:
  assumes "override_enabled c" "simulated_start_time c = Some S" "real_time_at_set c = Some R0"
    and "fst ` set calls \<subseteq>
           {NoData, Row \<lparr>row_override_enabled = True, row_simulated_datetime = Some S\<rparr>}"
  shows "system_time_calls z (map (\<lambda>(res, d). (res, R0 + d)) calls) c
         = map (\<lambda>(res, d). astimezone z S + d) calls"
  using assms
proof (induction calls arbitrary: c)
  case Nil
  then show ?case by simp
next
  case (Cons a calls)
  obtain res d where a: "a = (res, d)" by (cases a)
  from Cons.prems(4) a
  have res: "res = NoData \<or> res = Row \<lparr>row_override_enabled = True, row_simulated_datetime = Some S\<rparr>"
    by auto
  from Cons.prems(4)
  have rest: "fst ` set calls \<subseteq>
           {NoData, Row \<lparr>row_override_enabled = True, row_simulated_datetime = Some S\<rparr>}"
    by auto
  obtain v c' where g: "get_system_time z res (R0 + d) c = (v, c')"
    by (cases "get_system_time z res (R0 + d) c")
  from get_system_time_pinned[OF Cons.prems(1,2,3) res, of z "R0 + d"] g
  have v: "v = astimezone z S + d" and inv: "override_enabled c'" "simulated_start_time c' = Some S"
    "real_time_at_set c' = Some R0"
    by simp_all
  from Cons.IH[OF inv rest] a g v show ?case by simp
qed

text \<open>
  The clock advances with the real clock as long as the start the handler cached is
  equal to the one the store hands back: once the endpoint has enabled the override with
  a simulated start \<open>S\<close> that the store keeps as it is, pinned at the real time \<open>R0\<close>, every
  later call made at a real time \<open>R0 + d\<close> returns \<open>S + d\<close>, as long as a settings query
  that is made finds no data or the row the endpoint wrote. A start with an offset in a
  column of instants is such a start.
\<close>

lemma get_system_time_lockstep_kept:
  assumes "api_system_time_control_POST store_keeps True
             \<lparr>req_override_enabled = True, req_simulated_datetime = Some S\<rparr> R0 R1 (row0, c0)
           = (status, row1, c1)"
    and "store_keeps S = S"
    and "fst ` set calls \<subseteq> {NoData, Row row1}"
  shows "system_time_calls z (map (\<lambda>(res, d). (res, R0 + d)) calls) c1
         = map (\<lambda>(res, d). astimezone z S + d) calls"
proof -
  from assms(1,2)
  have row1: "row1 = \<lparr>row_override_enabled = True, row_simulated_datetime = Some S\<rparr>"
    and c1: "override_enabled c1" "simulated_start_time c1 = Some S" "real_time_at_set c1 = Some R0"
    by (auto simp: api_system_time_control_POST_def Let_def)
  from assms(3) row1 show ?thesis
    by (intro system_time_calls_pinned[OF c1]) simp
qed

lemma timestamptz_column_Aware: "timestamptz_column (Aware i) = Aware i"
  by (simp add: timestamptz_column_def)

text \<open>
  C3. After the override is enabled with simulated start \<open>S\<close>, pinned at \<open>R0\<close>, a call at
  \<open>R0 + d\<close> is to return \<open>S + d\<close>. The code does not do so for a start given without
  offset, here 2025-03-03T08:00:00 on a server whose zone is UTC, with a store that
  keeps instants. The handler caches the naive datetime and the store hands back an
  aware one, so the first refresh of the cache, 11 seconds after the request, finds the
  start changed, takes the row's and sets the pin to that moment: the calls 5, 11 and
  12 seconds after \<open>R0\<close> return \<open>S\<close> + 5 s, \<open>S\<close> and \<open>S\<close> + 1 s.
\<close>

theorem get_system_time_repinned_after_post:
  "api_system_time_control_POST timestamptz_column True
     \<lparr>req_override_enabled = True, req_simulated_datetime = Some (Naive 1740988800000000)\<rparr>
     1741000000000000 1741000000000000
     (\<lparr>row_override_enabled = False, row_simulated_datetime = None\<rparr>,
      \<lparr>override_enabled = False, simulated_start_time = None, real_time_at_set = None,
       last_checked = None\<rparr>)
   = (200,
      \<lparr>row_override_enabled = True, row_simulated_datetime = Some (Aware 1740988800000000)\<rparr>,
      \<lparr>override_enabled = True, simulated_start_time = Some (Naive 1740988800000000),
       real_time_at_set = Some 1741000000000000, last_checked = Some 1741000000000000\<rparr>)
   \<and> system_time_calls 0
       [(Row \<lparr>row_override_enabled = True,
              row_simulated_datetime = Some (Aware 1740988800000000)\<rparr>,
         1741000000000000 + 5000000),
        (Row \<lparr>row_override_enabled = True,
              row_simulated_datetime = Some (Aware 1740988800000000)\<rparr>,
         1741000000000000 + 11000000),
        (Row \<lparr>row_override_enabled = True,
              row_simulated_datetime = Some (Aware 1740988800000000)\<rparr>,
         1741000000000000 + 12000000)]
       \<lparr>override_enabled = True, simulated_start_time = Some (Naive 1740988800000000),
        real_time_at_set = Some 1741000000000000, last_checked = Some 1741000000000000\<rparr>
     = [1740988800000000 + 5000000, 1740988800000000, 1740988800000000 + 1000000]
   \<and> snd (get_system_time 0
            (Row \<lparr>row_override_enabled = True,
                  row_simulated_datetime = Some (Aware 1740988800000000)\<rparr>)
            (1741000000000000 + 11000000)
            \<lparr>override_enabled = True, simulated_start_time = Some (Naive 1740988800000000),
             real_time_at_set = Some 1741000000000000,
             last_checked = Some 1741000000000000\<rparr>)
     = \<lparr>override_enabled = True, simulated_start_time = Some (Aware 1740988800000000),
        real_time_at_set = Some (1741000000000000 + 11000000),
        last_checked = Some (1741000000000000 + 11000000)\<rparr>"
  by (simp add: api_system_time_control_POST_def timestamptz_column_def get_system_time_def
      refresh_due_def refresh_settings_def timedelta_seconds_def astimezone_def
      us_per_second_def us_per_day_def)

subsection \<open>When the cached settings are refreshed\<close>

text \<open>The test the code makes, spelled out: the seconds component of the elapsed time,
  which drops whole days and the fraction of a second, is compared with 10.\<close>

lemma refresh_due_iff:
  "refresh_due c real_now \<longleftrightarrow>
     (case last_checked c of
        None \<Rightarrow> True
      | Some lc \<Rightarrow> 11 * us_per_second \<le> (real_now - lc) mod us_per_day)"
  by (auto simp: refresh_due_def timedelta_seconds_def us_per_second_def us_per_day_def
      split: option.splits)

text \<open>
  C5. The settings are to be fetched again whenever more than 10 seconds of real time
  have passed since \<open>last_checked\<close>. The code does not do so 10.5 seconds after the last
  check, nor one day and 5 seconds after it: in both cases the settings row has changed
  in the store and the call leaves the cache as it was.
\<close>

theorem get_system_time_stale_not_refreshed:
  "\<not> refresh_due
       \<lparr>override_enabled = False, simulated_start_time = None, real_time_at_set = None,
        last_checked = Some 1740981600000000\<rparr> (1740981600000000 + 10500000)
   \<and> get_system_time local_offset
       (Row \<lparr>row_override_enabled = True,
             row_simulated_datetime = Some (Aware 1740981600000000)\<rparr>)
       (1740981600000000 + 10500000)
       \<lparr>override_enabled = False, simulated_start_time = None, real_time_at_set = None,
        last_checked = Some 1740981600000000\<rparr>
     = (1740981600000000 + 10500000,
        \<lparr>override_enabled = False, simulated_start_time = None, real_time_at_set = None,
         last_checked = Some 1740981600000000\<rparr>)
   \<and> \<not> refresh_due
       \<lparr>override_enabled = False, simulated_start_time = None, real_time_at_set = None,
        last_checked = Some 1740981600000000\<rparr> (1740981600000000 + 86405000000)
   \<and> get_system_time local_offset
       (Row \<lparr>row_override_enabled = True,
             row_simulated_datetime = Some (Aware 1740981600000000)\<rparr>)
       (1740981600000000 + 86405000000)
       \<lparr>override_enabled = False, simulated_start_time = None, real_time_at_set = None,
        last_checked = Some 1740981600000000\<rparr>
     = (1740981600000000 + 86405000000,
        \<lparr>override_enabled = False, simulated_start_time = None, real_time_at_set = None,
         last_checked = Some 1740981600000000\<rparr>)"
  by (simp add: get_system_time_def refresh_due_def timedelta_seconds_def us_per_second_def
      us_per_day_def)

subsection \<open>The attendance window\<close>

lemmas clock_defs =
  weekday_def date_of_def time_of_def start_of_day_def sast_offset_def us_per_day_def
  us_per_second_def thirty_minutes_def

lemmas session_defs =
  get_current_class_session_def sessions_of_day_def strptime_HMS_def digit_value_def

lemma strptime_HMS_range:
  "strptime_HMS s = Some T \<Longrightarrow> 0 \<le> T \<and> T < us_per_day"
  by (auto simp: strptime_HMS_def us_per_second_def us_per_day_def
      split: list.splits option.splits if_splits)

lemma find_session_closed:
  assumes "\<forall>r\<in>set rows. \<not> window_open r t"
  shows "find_session t rows = None"
  using assms
proof (induction rows)
  case Nil
  then show ?case by simp
next
  case (Cons r rows)
  show ?case
  proof (cases "strptime_HMS (tt_start_time r)")
    case None
    then show ?thesis by simp
  next
    case (Some T)
    from strptime_HMS_range[OF Some]
    have "(T + thirty_minutes) mod us_per_day \<le> T + thirty_minutes"
      by (simp add: thirty_minutes_def us_per_day_def zmod_le_nonneg_dividend)
    with Cons Some show ?thesis
      by (auto simp: window_open_def Let_def)
  qed
qed

text \<open>
  C1 as stated fails in two ways. On Monday 2025-03-03 at 10:20:00, with sessions starting
  at 10:00:00 and at 10:15:00, the second session's window contains the time but the
  first session is returned: the loop stops at the first match. With a session starting
  at 23:45:00, at 23:50:00 the window contains the time but nothing is returned: the end
  of the window, cut down to a time of day, is 00:15:00.
\<close>

theorem get_current_class_session_window_counterexample:
  "\<lparr>tt_id = 2, tt_module_id = 2, tt_day_of_week = 1, tt_start_time = ''10:15:00'',
     tt_end_time = ''11:00:00''\<rparr>
     \<in> set (sessions_of_day 1740990000000000
         [\<lparr>tt_id = 1, tt_module_id = 1, tt_day_of_week = 1, tt_start_time = ''10:00:00'',
           tt_end_time = ''11:00:00''\<rparr>,
          \<lparr>tt_id = 2, tt_module_id = 2, tt_day_of_week = 1, tt_start_time = ''10:15:00'',
           tt_end_time = ''11:00:00''\<rparr>])
   \<and> window_open
       \<lparr>tt_id = 2, tt_module_id = 2, tt_day_of_week = 1, tt_start_time = ''10:15:00'',
        tt_end_time = ''11:00:00''\<rparr> (time_of 1740990000000000)
   \<and> get_current_class_session 1740990000000000
       [\<lparr>tt_id = 1, tt_module_id = 1, tt_day_of_week = 1, tt_start_time = ''10:00:00'',
         tt_end_time = ''11:00:00''\<rparr>,
        \<lparr>tt_id = 2, tt_module_id = 2, tt_day_of_week = 1, tt_start_time = ''10:15:00'',
         tt_end_time = ''11:00:00''\<rparr>]
     = Some \<lparr>tt_id = 1, tt_module_id = 1, tt_day_of_week = 1, tt_start_time = ''10:00:00'',
             tt_end_time = ''11:00:00''\<rparr>
   \<and> window_open
       \<lparr>tt_id = 3, tt_module_id = 1, tt_day_of_week = 1, tt_start_time = ''23:45:00'',
        tt_end_time = ''23:59:00''\<rparr> (time_of 1741038600000000)
   \<and> get_current_class_session 1741038600000000
       [\<lparr>tt_id = 3, tt_module_id = 1, tt_day_of_week = 1, tt_start_time = ''23:45:00'',
         tt_end_time = ''23:59:00''\<rparr>]
     = None"
  by (simp add: session_defs clock_defs window_open_def)

lemma find_session_first_open:
  assumes "\<forall>r. find (\<lambda>r. window_open r t) (takeWhile start_time_parses rows) = Some r
               \<longrightarrow> ends_before_midnight r"
  shows "find_session t rows = find (\<lambda>r. window_open r t) (takeWhile start_time_parses rows)"
  using assms
proof (induction rows)
  case Nil
  then show ?case by simp
next
  case (Cons r rows)
  show ?case
  proof (cases "strptime_HMS (tt_start_time r)")
    case None
    then show ?thesis by (simp add: start_time_parses_def)
  next
    case (Some T)
    then have parses: "start_time_parses r" by (simp add: start_time_parses_def)
    show ?thesis
    proof (cases "window_open r t")
      case True
      with Cons.prems parses have "ends_before_midnight r" by simp
      with Some have lt: "T + thirty_minutes < us_per_day"
        by (simp add: ends_before_midnight_def)
      from strptime_HMS_range[OF Some] have "0 \<le> T + thirty_minutes"
        by (simp add: thirty_minutes_def)
      with lt have "(T + thirty_minutes) mod us_per_day = T + thirty_minutes" by simp
      with True Some parses show ?thesis by (simp add: window_open_def)
    next
      case False
      from strptime_HMS_range[OF Some]
      have "(T + thirty_minutes) mod us_per_day \<le> T + thirty_minutes"
        by (simp add: thirty_minutes_def us_per_day_def zmod_le_nonneg_dividend)
      with False Some have skip: "find_session t (r # rows) = find_session t rows"
        by (auto simp: window_open_def Let_def)
      from Cons.prems False parses
      have "\<forall>r. find (\<lambda>r. window_open r t) (takeWhile start_time_parses rows) = Some r
               \<longrightarrow> ends_before_midnight r"
        by simp
      from Cons.IH[OF this] skip False parses show ?thesis by simp
    qed
  qed
qed

text \<open>The condition cannot be dropped: a session the code returns has a window that ends
  before midnight.\<close>

lemma find_session_ends_before_midnight:
  "find_session t rows = Some r \<Longrightarrow> ends_before_midnight r"
proof (induction rows)
  case Nil
  then show ?case by simp
next
  case (Cons a rows)
  show ?case
  proof (cases "strptime_HMS (tt_start_time a)")
    case None
    with Cons.prems show ?thesis by simp
  next
    case (Some T)
    let ?e = "(T + thirty_minutes) mod us_per_day"
    show ?thesis
    proof (cases "T \<le> t \<and> t \<le> ?e")
      case True
      with Cons.prems Some have r: "r = a" by (simp add: Let_def)
      have "T + thirty_minutes < us_per_day"
      proof (rule ccontr)
        assume "\<not> T + thirty_minutes < us_per_day"
        with strptime_HMS_range[OF Some]
        have "?e = T + thirty_minutes - us_per_day"
          by (simp add: thirty_minutes_def us_per_day_def mod_pos_geq)
        with True show False by (simp add: thirty_minutes_def us_per_day_def)
      qed
      with Some r show ?thesis by (simp add: ends_before_midnight_def)
    next
      case False
      with Cons.prems Some have "find_session t rows = Some r" by (simp add: Let_def)
      with Cons.IH show ?thesis by simp
    qed
  qed
qed

text \<open>
  C1, amended. \<open>get_current_class_session\<close> returns the first session of the current
  simulated weekday, in table order, whose window \<open>[T, T + 30 minutes]\<close> contains the
  simulated time of day (so a session itself when no earlier session's window contains
  the time), provided that session's window ends before midnight, that is, it starts no
  later than 23:29:59; and none when there is no session whose window contains the time.
  The order stops at a session whose start time does not parse. Whatever the start times
  are, it returns none when no session's window contains the time of day, so from \<open>T\<close> +
  30 minutes + 1 second on unless another session's window is open.
\<close>

theorem get_current_class_session_window:
  "((\<forall>r. first_open_session now timetable = Some r \<longrightarrow> ends_before_midnight r) \<longrightarrow>
      get_current_class_session now timetable = first_open_session now timetable)
   \<and> ((\<forall>r\<in>set (sessions_of_day now timetable). \<not> window_open r (time_of now)) \<longrightarrow>
      get_current_class_session now timetable = None)"
proof (intro conjI impI)
  assume "\<forall>r. first_open_session now timetable = Some r \<longrightarrow> ends_before_midnight r"
  then have "find_session (time_of now) (sessions_of_day now timetable)
             = first_open_session now timetable"
    unfolding first_open_session_def readable_sessions_def by (rule find_session_first_open)
  then show "get_current_class_session now timetable = first_open_session now timetable"
    by (auto simp: get_current_class_session_def Let_def first_open_session_def
        readable_sessions_def)
next
  assume "\<forall>r\<in>set (sessions_of_day now timetable). \<not> window_open r (time_of now)"
  from find_session_closed[OF this]
  show "get_current_class_session now timetable = None"
    by (simp add: get_current_class_session_def Let_def)
qed

text \<open>An instance: Monday sessions at 10:00:00 and at 23:45:00 and a Tuesday one at
  14:00:00; on Monday 2025-03-03 the first session is returned at 10:10:00 and at
  10:30:00, and nothing at 10:30:01.\<close>

theorem get_current_class_session_window_witness:
  "get_current_class_session 1740989400000000
     [\<lparr>tt_id = 1, tt_module_id = 1, tt_day_of_week = 1, tt_start_time = ''10:00:00'',
       tt_end_time = ''11:00:00''\<rparr>,
      \<lparr>tt_id = 3, tt_module_id = 1, tt_day_of_week = 1, tt_start_time = ''23:45:00'',
       tt_end_time = ''23:59:00''\<rparr>,
      \<lparr>tt_id = 2, tt_module_id = 2, tt_day_of_week = 2, tt_start_time = ''14:00:00'',
       tt_end_time = ''15:00:00''\<rparr>]
   = Some \<lparr>tt_id = 1, tt_module_id = 1, tt_day_of_week = 1, tt_start_time = ''10:00:00'',
           tt_end_time = ''11:00:00''\<rparr>
   \<and> get_current_class_session 1740990600000000
     [\<lparr>tt_id = 1, tt_module_id = 1, tt_day_of_week = 1, tt_start_time = ''10:00:00'',
       tt_end_time = ''11:00:00''\<rparr>,
      \<lparr>tt_id = 3, tt_module_id = 1, tt_day_of_week = 1, tt_start_time = ''23:45:00'',
       tt_end_time = ''23:59:00''\<rparr>,
      \<lparr>tt_id = 2, tt_module_id = 2, tt_day_of_week = 2, tt_start_time = ''14:00:00'',
       tt_end_time = ''15:00:00''\<rparr>]
   = Some \<lparr>tt_id = 1, tt_module_id = 1, tt_day_of_week = 1, tt_start_time = ''10:00:00'',
           tt_end_time = ''11:00:00''\<rparr>
   \<and> get_current_class_session 1740990601000000
     [\<lparr>tt_id = 1, tt_module_id = 1, tt_day_of_week = 1, tt_start_time = ''10:00:00'',
       tt_end_time = ''11:00:00''\<rparr>,
      \<lparr>tt_id = 3, tt_module_id = 1, tt_day_of_week = 1, tt_start_time = ''23:45:00'',
       tt_end_time = ''23:59:00''\<rparr>,
      \<lparr>tt_id = 2, tt_module_id = 2, tt_day_of_week = 2, tt_start_time = ''14:00:00'',
       tt_end_time = ''15:00:00''\<rparr>]
   = None"
  using
    get_current_class_session_window
      [of 1740989400000000
          "[\<lparr>tt_id = 1, tt_module_id = 1, tt_day_of_week = 1, tt_start_time = ''10:00:00'',
             tt_end_time = ''11:00:00''\<rparr>,
            \<lparr>tt_id = 3, tt_module_id = 1, tt_day_of_week = 1, tt_start_time = ''23:45:00'',
             tt_end_time = ''23:59:00''\<rparr>,
            \<lparr>tt_id = 2, tt_module_id = 2, tt_day_of_week = 2, tt_start_time = ''14:00:00'',
             tt_end_time = ''15:00:00''\<rparr>]"]
    get_current_class_session_window
      [of 1740990600000000
          "[\<lparr>tt_id = 1, tt_module_id = 1, tt_day_of_week = 1, tt_start_time = ''10:00:00'',
             tt_end_time = ''11:00:00''\<rparr>,
            \<lparr>tt_id = 3, tt_module_id = 1, tt_day_of_week = 1, tt_start_time = ''23:45:00'',
             tt_end_time = ''23:59:00''\<rparr>,
            \<lparr>tt_id = 2, tt_module_id = 2, tt_day_of_week = 2, tt_start_time = ''14:00:00'',
             tt_end_time = ''15:00:00''\<rparr>]"]
    get_current_class_session_window
      [of 1740990601000000
          "[\<lparr>tt_id = 1, tt_module_id = 1, tt_day_of_week = 1, tt_start_time = ''10:00:00'',
             tt_end_time = ''11:00:00''\<rparr>,
            \<lparr>tt_id = 3, tt_module_id = 1, tt_day_of_week = 1, tt_start_time = ''23:45:00'',
             tt_end_time = ''23:59:00''\<rparr>,
            \<lparr>tt_id = 2, tt_module_id = 2, tt_day_of_week = 2, tt_start_time = ''14:00:00'',
             tt_end_time = ''15:00:00''\<rparr>]"]
  by (simp add: first_open_session_def readable_sessions_def start_time_parses_def
      sessions_of_day_def strptime_HMS_def digit_value_def clock_defs window_open_def
      ends_before_midnight_def)

subsection \<open>Marking attendance\<close>

lemma get_face_embedding_both_fail:
  "represent v True img = None \<Longrightarrow> represent v False img = None \<Longrightarrow> get_face_embedding v img = None"
  by (simp add: get_face_embedding_def)



text \<open>
  C4 as stated fails: with a session open and a capture in which neither detection
  attempt finds a face, the handler answers 400, not 404.
\<close>

theorem api_mark_attendance_no_face_counterexample:
  "get_face_embedding example_blind_camera [255, 216] = None
   \<and> api_mark_attendance example_clock example_blind_camera
       (Some ''data:image/jpeg;base64,/9j/4AAQ'') example_db
     = ((ErrorBody ''No face could be detected in the image.'', 400), example_db)
   \<and> snd (fst (api_mark_attendance example_clock example_blind_camera
       (Some ''data:image/jpeg;base64,/9j/4AAQ'') example_db)) \<noteq> 404"
  by (simp add: api_mark_attendance_def get_face_embedding_def split_data_url_def
      example_blind_camera_def example_clock_def example_db_def session_defs clock_defs)

text \<open>
  C4, amended. In the attendance-marking flow, with a session open and a capture that
  decodes, whenever no embedding can be extracted from the capture (the extraction gives
  nothing or an empty vector, as when the strict and the relaxed detection both fail),
  the response is 400 (bad request) with the message ``No face could be detected in the
  image.'', and no record is written.
\<close>

theorem api_mark_attendance_no_face:
  assumes "get_current_class_session (now_session clk) (class_timetable db) = Some active_class"
    and "split_data_url url = Some (header, encoded)"
    and "decode_image v encoded = Some live_image"
    and "get_face_embedding v live_image = None \<or> get_face_embedding v live_image = Some []"
  shows "api_mark_attendance clk v (Some url) db
         = ((ErrorBody ''No face could be detected in the image.'', 400), db)"
  using assms by (auto simp: api_mark_attendance_def)

theorem api_mark_attendance_no_face_witness:
  "api_mark_attendance example_clock example_blind_camera
     (Some ''data:image/jpeg;base64,/9j/4AAQ'') example_db
   = ((ErrorBody ''No face could be detected in the image.'', 400), example_db)"
  using api_mark_attendance_no_face
    [where clk = example_clock and db = example_db and v = example_blind_camera
       and url = "''data:image/jpeg;base64,/9j/4AAQ''" and header = "''data:image/jpeg;base64''"
       and encoded = "''/9j/4AAQ''" and live_image = "[255, 216]"
       and active_class = "\<lparr>tt_id = 1, tt_module_id = 1, tt_day_of_week = 1,
             tt_start_time = ''10:00:00'', tt_end_time = ''11:00:00''\<rparr>"]
    get_face_embedding_both_fail [of example_blind_camera "[255, 216]"]
  by (simp add: split_data_url_def example_blind_camera_def example_clock_def example_db_def
      session_defs clock_defs)

lemma resolves_toE:
  assumes "resolves_to v image_data student_id full_name"
  obtains url header encoded img emb m ms where
    "image_data = Some url" "split_data_url url = Some (header, encoded)"
    "decode_image v encoded = Some img" "get_face_embedding v img = Some emb" "emb \<noteq> []"
    "match_student v emb = m # ms" "match_id m = student_id" "match_full_name m = full_name"
proof -
  from assms obtain url where 1: "image_data = Some url"
    by (cases image_data) (simp_all add: resolves_to_def)
  from assms 1 obtain header encoded where 2: "split_data_url url = Some (header, encoded)"
    by (cases "split_data_url url") (auto simp: resolves_to_def)
  from assms 1 2 obtain img where 3: "decode_image v encoded = Some img"
    by (cases "decode_image v encoded") (simp_all add: resolves_to_def)
  from assms 1 2 3 obtain emb where 4: "get_face_embedding v img = Some emb"
    by (cases "get_face_embedding v img") (simp_all add: resolves_to_def)
  from assms 1 2 3 4 have 5: "emb \<noteq> []"
    by (simp add: resolves_to_def)
  from assms 1 2 3 4 5 obtain m ms where 6: "match_student v emb = m # ms"
    by (cases "match_student v emb") (simp_all add: resolves_to_def)
  from assms 1 2 3 4 5 6 have 7: "match_id m = student_id" "match_full_name m = full_name"
    by (simp_all add: resolves_to_def)
  from 1 2 3 4 5 6 7 that show thesis by blast
qed

lemma api_mark_attendance_resolved:
  assumes "get_current_class_session (now_session clk) (class_timetable db) = Some active_class"
    and "resolves_to v image_data student_id full_name"
  shows "api_mark_attendance clk v image_data db =
     (if length (existing_records student_id (tt_module_id active_class)
                   (start_of_day (now_day clk)) (attendance_records db)) > 0
      then ((ErrorBody (full_name @ '' has already been marked present for this class.''), 409), db)
      else ((MarkedBody (''Attendance marked for '' @ full_name @ ''!'') full_name, 200),
            db\<lparr>attendance_records := attendance_records db @
                 [\<lparr>ar_student_id = student_id, ar_module_id = tt_module_id active_class,
                   ar_status = ''present'',
                   ar_created_at = (if override_on clk then now_stamp clk else store_now clk)\<rparr>]\<rparr>))"
proof -
  from assms(2) obtain url header encoded img emb m ms where
    "image_data = Some url" "split_data_url url = Some (header, encoded)"
    "decode_image v encoded = Some img" "get_face_embedding v img = Some emb" "emb \<noteq> []"
    "match_student v emb = m # ms" "match_id m = student_id" "match_full_name m = full_name"
    by (rule resolves_toE)
  with assms(1) show ?thesis
    by (simp add: api_mark_attendance_def Let_def)
qed

text \<open>
  C9. The duplicate check of the attendance-marking flow counts every record of the
  student in the module created at or after the start of the simulated day, whatever
  its status. So when such a record exists, an \<^verbatim>\<open>absent\<close> one included, a request that
  resolves to the student is answered with 409 (conflict) and writes nothing: the
  student cannot be marked present that day.
\<close>

theorem api_mark_attendance_any_record_conflicts:
  assumes "get_current_class_session (now_session clk) (class_timetable db) = Some active_class"
    and "resolves_to v image_data student_id full_name"
    and "r \<in> set (attendance_records db)"
    and "ar_student_id r = student_id"
    and "ar_module_id r = tt_module_id active_class"
    and "start_of_day (now_day clk) \<le> ar_created_at r"
  shows "api_mark_attendance clk v image_data db
         = ((ErrorBody (full_name @ '' has already been marked present for this class.''), 409), db)"
proof -
  from assms(3-6)
  have "r \<in> set (existing_records student_id (tt_module_id active_class)
                   (start_of_day (now_day clk)) (attendance_records db))"
    by (simp add: existing_records_def)
  then have "length (existing_records student_id (tt_module_id active_class)
                   (start_of_day (now_day clk)) (attendance_records db)) > 0"
    by (metis length_greater_0_conv empty_iff empty_set)
  with api_mark_attendance_resolved[OF assms(1,2)] show ?thesis
    by simp
qed

text \<open>An instance: the sweep has written an \<^verbatim>\<open>absent\<close> record for the student at 09:00:00
  of the same day.\<close>

theorem api_mark_attendance_any_record_conflicts_witness:
  "api_mark_attendance example_clock example_camera (Some ''data:image/jpeg;base64,/9j/4AAQ'')
     (example_db\<lparr>attendance_records :=
        [\<lparr>ar_student_id = ''s-1'', ar_module_id = 1, ar_status = ''absent'',
          ar_created_at = 1740985200000000\<rparr>]\<rparr>)
   = ((ErrorBody ''Thandi Nkosi has already been marked present for this class.'', 409),
      example_db\<lparr>attendance_records :=
        [\<lparr>ar_student_id = ''s-1'', ar_module_id = 1, ar_status = ''absent'',
          ar_created_at = 1740985200000000\<rparr>]\<rparr>)"
  using api_mark_attendance_any_record_conflicts
    [where clk = example_clock and v = example_camera
       and image_data = "Some ''data:image/jpeg;base64,/9j/4AAQ''"
       and db = "example_db\<lparr>attendance_records :=
          [\<lparr>ar_student_id = ''s-1'', ar_module_id = 1, ar_status = ''absent'',
            ar_created_at = 1740985200000000\<rparr>]\<rparr>"
       and active_class = "\<lparr>tt_id = 1, tt_module_id = 1, tt_day_of_week = 1,
             tt_start_time = ''10:00:00'', tt_end_time = ''11:00:00''\<rparr>"
       and student_id = "''s-1''" and full_name = "''Thandi Nkosi''"
       and r = "\<lparr>ar_student_id = ''s-1'', ar_module_id = 1, ar_status = ''absent'',
            ar_created_at = 1740985200000000\<rparr>"]
  by (simp add: resolves_to_def split_data_url_def get_face_embedding_def example_camera_def
      example_clock_def example_db_def session_defs clock_defs)





subsection \<open>The startup backfill\<close>

lemma backfill_lectures_frame:
  "class_timetable (backfill_lectures ls db) = class_timetable db"
  "students (backfill_lectures ls db) = students db"
  "modules (backfill_lectures ls db) = modules db"
  "lecture_schedules (backfill_lectures ls db) = lecture_schedules db"
  "at_risk_warnings (backfill_lectures ls db) = at_risk_warnings db"
  by (induction ls arbitrary: db) (auto simp: Let_def split: option.splits)

lemma backfill_lectures_extends:
  "\<exists>extra. attendance_records (backfill_lectures ls db) = attendance_records db @ extra"
proof (induction ls arbitrary: db)
  case Nil
  then show ?case by simp
next
  case (Cons l ls)
  show ?case
  proof (cases "find (\<lambda>m. mod_id m = lec_module_id l) (modules db)")
    case None
    then show ?thesis by simp
  next
    case (Some m)
    let ?db' = "db\<lparr>attendance_records := attendance_records db
                   @ absent_records l (enrolled_students (mod_module_code m) (students db))\<rparr>"
    from Cons.IH[of db] obtain e1 where e1:
      "attendance_records (backfill_lectures ls db) = attendance_records db @ e1" by blast
    from Cons.IH[of ?db'] obtain e2 where e2:
      "attendance_records (backfill_lectures ls ?db') = attendance_records ?db' @ e2" by blast
    from Some e1 e2 show ?thesis by (auto simp: Let_def)
  qed
qed

lemma records_on_day_append:
  "records_on_day m d (recs @ extra) = records_on_day m d recs @ records_on_day m d extra"
  by (simp add: records_on_day_def)

lemma records_on_day_absent:
  "enrolled \<noteq> [] \<Longrightarrow> records_on_day (lec_module_id l) (lec_date l) (absent_records l enrolled) \<noteq> []"
  by (cases enrolled)
     (simp_all add: records_on_day_def absent_records_def timestamp_on_def us_per_second_def)

lemma records_on_day_kept:
  assumes "records_on_day m d (attendance_records db) \<noteq> []"
  shows "records_on_day m d (attendance_records (backfill_lectures ls db)) \<noteq> []"
proof -
  from backfill_lectures_extends[of ls db] obtain extra where
    "attendance_records (backfill_lectures ls db) = attendance_records db @ extra" by blast
  with assms show ?thesis by (simp add: records_on_day_append)
qed

lemma backfill_lectures_skip:
  assumes "records_on_day (lec_module_id l) (lec_date l) (attendance_records db) \<noteq> []
           \<or> \<not> has_enrolled db l"
  shows "backfill_lectures (l # ls) db
         = (if module_embedded db l then backfill_lectures ls db else db)"
  using assms
  by (auto simp: has_enrolled_def module_embedded_def Let_def split: option.splits)

lemma backfill_lectures_idem:
  "backfill_lectures ls (backfill_lectures ls db) = backfill_lectures ls db"
proof (induction ls arbitrary: db)
  case Nil
  then show ?case by simp
next
  case (Cons l ls)
  show ?case
  proof (cases "find (\<lambda>m. mod_id m = lec_module_id l) (modules db)")
    case None
    then show ?thesis by simp
  next
    case (Some m)
    let ?enrolled = "enrolled_students (mod_module_code m) (students db)"
    let ?db' = "db\<lparr>attendance_records := attendance_records db @ absent_records l ?enrolled\<rparr>"
    let ?written = "records_on_day (lec_module_id l) (lec_date l) (attendance_records db) = []
                    \<and> ?enrolled \<noteq> []"
    define d0 where "d0 = (if ?written then ?db' else db)"
    have run: "backfill_lectures (l # ls) db = backfill_lectures ls d0"
      using Some by (simp add: d0_def Let_def)
    have mods: "modules d0 = modules db" and studs: "students d0 = students db"
      by (simp_all add: d0_def)
    have settled: "records_on_day (lec_module_id l) (lec_date l) (attendance_records d0) \<noteq> []
                   \<or> \<not> has_enrolled d0 l"
      using Some records_on_day_absent[of ?enrolled l]
      by (auto simp: d0_def has_enrolled_def records_on_day_append)
    let ?d1 = "backfill_lectures ls d0"
    have emb: "module_embedded ?d1 l"
      using Some mods by (simp add: module_embedded_def backfill_lectures_frame)
    have same: "has_enrolled ?d1 l = has_enrolled d0 l"
      by (simp add: has_enrolled_def backfill_lectures_frame cong: option.case_cong)
    have "records_on_day (lec_module_id l) (lec_date l) (attendance_records ?d1) \<noteq> []
          \<or> \<not> has_enrolled ?d1 l"
      using settled records_on_day_kept[of "lec_module_id l" "lec_date l" d0 ls]
      unfolding same by blast
    from backfill_lectures_skip[OF this, of ls] emb
    have "backfill_lectures (l # ls) ?d1 = backfill_lectures ls ?d1" by simp
    with Cons.IH[of d0] run show ?thesis by simp
  qed
qed

lemma backfill_lectures_covers:
  assumes "\<forall>l\<in>set ls. module_embedded db l"
  shows "\<forall>l\<in>set ls. has_enrolled db l \<longrightarrow>
           records_on_day (lec_module_id l) (lec_date l)
             (attendance_records (backfill_lectures ls db)) \<noteq> []"
  using assms
proof (induction ls arbitrary: db)
  case Nil
  then show ?case by simp
next
  case (Cons l ls)
  from Cons.prems obtain m where m: "find (\<lambda>m. mod_id m = lec_module_id l) (modules db) = Some m"
    by (auto simp: module_embedded_def)
  let ?enrolled = "enrolled_students (mod_module_code m) (students db)"
  let ?db' = "db\<lparr>attendance_records := attendance_records db @ absent_records l ?enrolled\<rparr>"
  let ?written = "records_on_day (lec_module_id l) (lec_date l) (attendance_records db) = []
                  \<and> ?enrolled \<noteq> []"
  define d0 where "d0 = (if ?written then ?db' else db)"
  have run: "backfill_lectures (l # ls) db = backfill_lectures ls d0"
    using m by (simp add: d0_def Let_def)
  have emb: "module_embedded d0 = module_embedded db" and enr: "has_enrolled d0 = has_enrolled db"
    by (simp_all add: d0_def module_embedded_def has_enrolled_def fun_eq_iff
        cong: option.case_cong)
  have first: "has_enrolled db l \<longrightarrow>
      records_on_day (lec_module_id l) (lec_date l) (attendance_records d0) \<noteq> []"
    using m records_on_day_absent[of ?enrolled l]
    by (auto simp: d0_def has_enrolled_def records_on_day_append)
  from Cons.prems have "\<forall>l\<in>set ls. module_embedded d0 l" by (simp add: emb)
  from Cons.IH[OF this] have rest: "\<forall>l\<in>set ls. has_enrolled db l \<longrightarrow>
           records_on_day (lec_module_id l) (lec_date l)
             (attendance_records (backfill_lectures ls d0)) \<noteq> []"
    by (simp add: enr)
  from first rest records_on_day_kept[of "lec_module_id l" "lec_date l" d0 ls] run
  show ?case by auto
qed

text \<open>
  C6. The startup backfill is idempotent: run a second time, at the same system time, on
  the store the first run left, it writes no further record and leaves the store as it
  is. When every past lecture has its module embedded (so that the first run was not
  cut short), every past lecture of a module with an enrolled student has, after the
  first run, at least one record of the module within the lecture's day: that is what
  the second run's existence check finds.
\<close>

theorem backfill_missed_attendance_idempotent:
  "backfill_missed_attendance now (backfill_missed_attendance now db)
   = backfill_missed_attendance now db
   \<and> ((\<forall>l\<in>set (past_lectures now db). module_embedded db l) \<longrightarrow>
      (\<forall>l\<in>set (past_lectures now db). has_enrolled db l \<longrightarrow>
         records_on_day (lec_module_id l) (lec_date l)
           (attendance_records (backfill_missed_attendance now db)) \<noteq> []))"
proof (intro conjI impI)
  have "past_lectures now (backfill_lectures ls db) = past_lectures now db" for ls
    by (simp add: past_lectures_def backfill_lectures_frame)
  then show "backfill_missed_attendance now (backfill_missed_attendance now db)
   = backfill_missed_attendance now db"
    by (simp add: backfill_missed_attendance_def Let_def backfill_lectures_idem)
next
  assume "\<forall>l\<in>set (past_lectures now db). module_embedded db l"
  from backfill_lectures_covers[OF this]
  show "\<forall>l\<in>set (past_lectures now db). has_enrolled db l \<longrightarrow>
         records_on_day (lec_module_id l) (lec_date l)
           (attendance_records (backfill_missed_attendance now db)) \<noteq> []"
    by (auto simp: backfill_missed_attendance_def Let_def)
qed

lemmas backfill_defs =
  backfill_missed_attendance_def past_lectures_def records_on_day_def enrolled_students_def
  absent_records_def timestamp_on_def module_embedded_def has_enrolled_def

text \<open>An instance, run on Monday 2025-03-03: a lecture of module 1 on 2025-03-02 without
  any record, and one still to come on 2025-03-04.\<close>

theorem backfill_missed_attendance_idempotent_witness:
  "backfill_missed_attendance 1740990000000000
     (example_db\<lparr>lecture_schedules :=
        [\<lparr>lec_date = 20149, lec_module_id = 1\<rparr>, \<lparr>lec_date = 20151, lec_module_id = 1\<rparr>]\<rparr>)
   = example_db\<lparr>lecture_schedules :=
        [\<lparr>lec_date = 20149, lec_module_id = 1\<rparr>, \<lparr>lec_date = 20151, lec_module_id = 1\<rparr>],
       attendance_records :=
        [\<lparr>ar_student_id = ''s-1'', ar_module_id = 1, ar_status = ''absent'',
          ar_created_at = 1740934800000000\<rparr>]\<rparr>
   \<and> backfill_missed_attendance 1740990000000000
     (example_db\<lparr>lecture_schedules :=
        [\<lparr>lec_date = 20149, lec_module_id = 1\<rparr>, \<lparr>lec_date = 20151, lec_module_id = 1\<rparr>],
       attendance_records :=
        [\<lparr>ar_student_id = ''s-1'', ar_module_id = 1, ar_status = ''absent'',
          ar_created_at = 1740934800000000\<rparr>]\<rparr>)
   = example_db\<lparr>lecture_schedules :=
        [\<lparr>lec_date = 20149, lec_module_id = 1\<rparr>, \<lparr>lec_date = 20151, lec_module_id = 1\<rparr>],
       attendance_records :=
        [\<lparr>ar_student_id = ''s-1'', ar_module_id = 1, ar_status = ''absent'',
          ar_created_at = 1740934800000000\<rparr>]\<rparr>"
proof -
  have run: "backfill_missed_attendance 1740990000000000
     (example_db\<lparr>lecture_schedules :=
        [\<lparr>lec_date = 20149, lec_module_id = 1\<rparr>, \<lparr>lec_date = 20151, lec_module_id = 1\<rparr>]\<rparr>)
   = example_db\<lparr>lecture_schedules :=
        [\<lparr>lec_date = 20149, lec_module_id = 1\<rparr>, \<lparr>lec_date = 20151, lec_module_id = 1\<rparr>],
       attendance_records :=
        [\<lparr>ar_student_id = ''s-1'', ar_module_id = 1, ar_status = ''absent'',
          ar_created_at = 1740934800000000\<rparr>]\<rparr>"
    by (simp add: backfill_defs example_db_def clock_defs)
  from backfill_missed_attendance_idempotent
    [of 1740990000000000 "example_db\<lparr>lecture_schedules :=
        [\<lparr>lec_date = 20149, lec_module_id = 1\<rparr>, \<lparr>lec_date = 20151, lec_module_id = 1\<rparr>]\<rparr>"]
  show ?thesis unfolding run by simp
qed

subsection \<open>At-risk warnings\<close>



lemma warning_loop_elsewhere:
  assumes "n \<noteq> 16" "n \<noteq> 18" "n \<noteq> 21"
  shows "warning_loop smtp sid mid n [16, 18, 21] (db, []) = (db, [])"
  using assms by simp

lemma warning_step_sent:
  "warnings_at level (snd (warning_step smtp sid mid threshold db)) \<noteq> [] \<Longrightarrow>
   existing_warning sid mid threshold (at_risk_warnings db) = []"
  by (auto simp: warning_step_def warnings_at_def split: option.splits if_splits)





subsection \<open>Submitting a campaign response\<close>


lemma score_loop_error:
  assumes "\<not> list_all (\<lambda>(k, a). py_int other k \<noteq> None) resp"
  shows "score_loop other m resp s = None"
  using assms
  by (induction resp arbitrary: s) (auto split: option.splits)









text \<open>A request without token or without answers is refused before anything is scored.\<close>

lemma api_submit_campaign_response_empty:
  "api_submit_campaign_response other loads token [] campaigns campaign_questions
     campaign_participants = Rejected 400"
  by (simp add: api_submit_campaign_response_def split: option.splits)




subsection \<open>The weekly summary\<close>

lemma add_record_keys:
  "fst ` set (add_record r sd) = insert (wr_student_id r) (fst ` set sd)"
  by (induction r sd rule: add_record.induct) auto

lemma student_data_keys_acc:
  "fst ` set (foldl (\<lambda>acc r. add_record r acc) sd records)
   = fst ` set sd \<union> wr_student_id ` set records"
  by (induction records arbitrary: sd) (auto simp: add_record_keys)

lemma student_data_keys:
  "fst ` set (student_data_of records) = wr_student_id ` set records"
  by (simp add: student_data_of_def student_data_keys_acc)

lemma add_record_details:
  assumes "(sid, n, Some d) \<in> set (add_record r sd)"
  shows "wr_details r = Some d \<or> (\<exists>n'. (sid, n', Some d) \<in> set sd)"
  using assms
  by (induction r sd rule: add_record.induct) (auto split: if_splits)

lemma student_data_details_acc:
  assumes "(sid, n, Some d) \<in> set (foldl (\<lambda>acc r. add_record r acc) sd records)"
  shows "(\<exists>r\<in>set records. wr_details r = Some d) \<or> (\<exists>n'. (sid, n', Some d) \<in> set sd)"
  using assms
proof (induction records arbitrary: sd n)
  case Nil
  then show ?case by auto
next
  case (Cons r records)
  from Cons.IH[of n "add_record r sd"] Cons.prems
  have "(\<exists>r\<in>set records. wr_details r = Some d)
        \<or> (\<exists>n'. (sid, n', Some d) \<in> set (add_record r sd))"
    by simp
  with add_record_details show ?case by fastforce
qed

lemma student_data_details:
  assumes "(sid, n, Some d) \<in> set (student_data_of records)"
  shows "\<exists>r\<in>set records. wr_details r = Some d"
  using student_data_details_acc[of sid n d "[]" records] assms
  by (simp add: student_data_of_def)

lemma group_recipients:
  assumes "e \<in> set (perfect_attendance n code lect sd @ zero_attendance n code lect sd)"
  shows "\<exists>sid k d. (sid, k, Some d) \<in> set sd \<and> em_recipient e = st_email d"
proof -
  from assms consider "e \<in> set (perfect_attendance n code lect sd)"
    | "e \<in> set (zero_attendance n code lect sd)" by auto
  then show ?thesis
  proof cases
    case 1
    then obtain sid k d where "(sid, k, Some d) \<in> set sd" "em_recipient e = st_email d"
      by (auto simp: perfect_attendance_def split: option.splits if_splits)
    then show ?thesis by blast
  next
    case 2
    then obtain sid k d where "(sid, k, Some d) \<in> set sd" "em_recipient e = st_email d"
      by (auto simp: zero_attendance_def split: option.splits if_splits)
    then show ?thesis by blast
  qed
qed

lemma weekly_module_emails_recipients:
  assumes "e \<in> set (weekly_module_emails s t db m lect)"
  shows "\<exists>r\<in>set (weekly_records s t (mod_id m) db). \<exists>d. wr_details r = Some d
           \<and> em_recipient e = st_email d"
proof -
  let ?n = "int (length (filter (\<lambda>l. lec_module_id l = mod_id m \<and> s \<le> lec_date l \<and> lec_date l \<le> t)
                           (lecture_schedules db)))"
  let ?sd = "student_data_of (weekly_records s t (mod_id m) db)"
  from assms have "e \<in> set (perfect_attendance ?n (mod_module_code m) lect ?sd
                     @ zero_attendance ?n (mod_module_code m) lect ?sd)"
    by (simp add: weekly_module_emails_def Let_def split: if_splits)
  from group_recipients[OF this] obtain sid k d where
    "(sid, k, Some d) \<in> set ?sd" "em_recipient e = st_email d" by blast
  with student_data_details show ?thesis by blast
qed

lemma weekly_modules_emails:
  "set (weekly_modules s t db ms)
   \<subseteq> (\<Union>m\<in>set ms. case mod_lecturer m of
                        None \<Rightarrow> {}
                      | Some lecturer_name \<Rightarrow> set (weekly_module_emails s t db m lecturer_name))"
  by (induction ms) (auto split: option.splits)

text \<open>
  C10. In the weekly summary the two groups of a module are built from the dictionary
  \<open>student_data\<close>, whose keys are the students with at least one attendance record of
  the module, of any status, in the week's window: a student without such a record is
  not among them. The emails of a module go only to addresses of students with such a
  record, and every email of the run is an email of one of the modules. So a student
  with no record in the window is in neither group and gets no weekly email, lectures
  scheduled or not.
\<close>

theorem weekly_summary_only_recorded_students:
  "(student_id \<notin> wr_student_id ` set (weekly_records s t module_id db)
      \<longrightarrow> student_id \<notin> fst ` set (student_data_of (weekly_records s t module_id db)))
   \<and> em_recipient ` set (weekly_module_emails s t db m lecturer_name)
       \<subseteq> weekly_addresses s t db (mod_id m)
   \<and> set (send_weekly_summary_emails now db)
       \<subseteq> (\<Union>m\<in>set (modules db).
            case mod_lecturer m of
              None \<Rightarrow> {}
            | Some lecturer_name \<Rightarrow>
                set (weekly_module_emails (start_of_last_week now) (end_of_last_week now) db m
                       lecturer_name))"
proof (intro conjI impI)
  assume "student_id \<notin> wr_student_id ` set (weekly_records s t module_id db)"
  then show "student_id \<notin> fst ` set (student_data_of (weekly_records s t module_id db))"
    by (simp add: student_data_keys)
next
  show "em_recipient ` set (weekly_module_emails s t db m lecturer_name)
       \<subseteq> weekly_addresses s t db (mod_id m)"
  proof
    fix a assume "a \<in> em_recipient ` set (weekly_module_emails s t db m lecturer_name)"
    then obtain e where "e \<in> set (weekly_module_emails s t db m lecturer_name)"
      "a = em_recipient e" by auto
    with weekly_module_emails_recipients[of e s t db m lecturer_name]
    obtain r d where "r \<in> set (weekly_records s t (mod_id m) db)" "wr_details r = Some d"
      "a = st_email d" by auto
    then show "a \<in> weekly_addresses s t db (mod_id m)"
      by (force simp: weekly_addresses_def)
  qed
next
  show "set (send_weekly_summary_emails now db)
       \<subseteq> (\<Union>m\<in>set (modules db).
            case mod_lecturer m of
              None \<Rightarrow> {}
            | Some lecturer_name \<Rightarrow>
                set (weekly_module_emails (start_of_last_week now) (end_of_last_week now) db m
                       lecturer_name))"
    unfolding send_weekly_summary_emails_def by (rule weekly_modules_emails)
qed

text \<open>An instance: the run of Sunday 2025-03-09 at 18:00:00 sends one email, the praise
  to the student who attended the week's lecture; the student without a record is not in
  the dictionary and gets nothing.\<close>

theorem weekly_summary_only_recorded_students_witness:
  "send_weekly_summary_emails 1741536000000000 example_week_db
   = [\<lparr>em_recipient = ''thandi@dut4life.ac.za'',
       em_subject = ''Great work in SODM401 last week!'',
       em_body = WeeklyPerfectBody ''Thandi Nkosi'' ''SODM401'' ''Dr Pillay''\<rparr>]
   \<and> ''s-2'' \<notin> fst ` set (student_data_of (weekly_records 20143 20149 1 example_week_db))
   \<and> ''sipho@dut4life.ac.za'' \<notin> weekly_addresses 20143 20149 example_week_db 1
   \<and> ''sipho@dut4life.ac.za''
       \<notin> em_recipient ` set (weekly_module_emails 20143 20149 example_week_db
            \<lparr>mod_id = 1, mod_module_code = ''SODM401'', mod_lecturer = Some ''Dr Pillay''\<rparr>
            ''Dr Pillay'')"
proof -
  have run: "send_weekly_summary_emails 1741536000000000 example_week_db
   = [\<lparr>em_recipient = ''thandi@dut4life.ac.za'',
       em_subject = ''Great work in SODM401 last week!'',
       em_body = WeeklyPerfectBody ''Thandi Nkosi'' ''SODM401'' ''Dr Pillay''\<rparr>]"
    by code_simp
  have rows: "''s-2'' \<notin> wr_student_id ` set (weekly_records 20143 20149 1 example_week_db)"
    by code_simp
  have addr: "''sipho@dut4life.ac.za'' \<notin> weekly_addresses 20143 20149 example_week_db 1"
    by code_simp
  note inst = weekly_summary_only_recorded_students
    [of "''s-2''" 20143 20149 1 example_week_db
        "\<lparr>mod_id = 1, mod_module_code = ''SODM401'', mod_lecturer = Some ''Dr Pillay''\<rparr>"
        "''Dr Pillay''" 1741536000000000]
  from inst rows
  have keys: "''s-2'' \<notin> fst ` set (student_data_of (weekly_records 20143 20149 1 example_week_db))"
    by blast
  from inst addr
  have mail: "''sipho@dut4life.ac.za''
       \<notin> em_recipient ` set (weekly_module_emails 20143 20149 example_week_db
            \<lparr>mod_id = 1, mod_module_code = ''SODM401'', mod_lecturer = Some ''Dr Pillay''\<rparr>
            ''Dr Pillay'')"
    by (simp add: subset_iff del: image_iff) blast
  from run keys addr mail show ?thesis by (intro conjI)
qed

end
